theory Spec2Isabelle
  imports Complex_Main "HOL-Library.AList"
begin

section \<open>JavaScript values\<close>

text \<open>
  The values that travel through the gateway: request bodies, upstream response bodies,
  normalized responses and HTTP response bodies are all plain JavaScript objects. An
  object is an association list in property order (keys are distinct); \<open>JUndefined\<close> is
  what reading a missing property gives. Numbers are the finite values a JSON text can
  denote.
\<close>

datatype json =
    JUndefined
  | JNull
  | JBool bool
  | JNum rat
  | JStr string
  | JArr "json list"
  | JObj "(string \<times> json) list"

definition dq :: string where
  "dq = [CHR 0x22]"

definition sq :: string where
  "sq = [CHR 0x27]"

definition nl :: string where
  "nl = [CHR 0x0A]"

text \<open>\<open>obj[key]\<close> on an object known to be one (never throws).\<close>

definition getp :: "string \<Rightarrow> (string \<times> json) list \<Rightarrow> json" where
  "getp k kvs = (case map_of kvs k of None \<Rightarrow> JUndefined | Some v \<Rightarrow> v)"

text \<open>JavaScript truthiness, as \<open>if (x)\<close>, \<open>x || y\<close> and \<open>!!x\<close> read it.\<close>

fun truthy :: "json \<Rightarrow> bool" where
  "truthy JUndefined = False"
| "truthy JNull = False"
| "truthy (JBool b) = b"
| "truthy (JNum x) = (x \<noteq> 0)"
| "truthy (JStr s) = (s \<noteq> [])"
| "truthy (JArr xs) = True"
| "truthy (JObj kvs) = True"

definition lower_char :: "char \<Rightarrow> char" where
  "lower_char c =
     (case map_of (zip ''ABCDEFGHIJKLMNOPQRSTUVWXYZ'' ''abcdefghijklmnopqrstuvwxyz'') c of
        None \<Rightarrow> c
      | Some d \<Rightarrow> d)"

definition toLowerCase :: "string \<Rightarrow> string" where
  "toLowerCase s = map lower_char s"

text \<open>Decimal text of an array index, as it appears in a validation path.\<close>

fun show_nat :: "nat \<Rightarrow> string" where
  "show_nat n =
     (if n < 10 then [''0123456789'' ! n]
      else show_nat (n div 10) @ [''0123456789'' ! (n mod 10)])"

declare show_nat.simps [simp del]

section \<open>Library functions taken as given\<close>

text \<open>
  The code calls into the JavaScript engine and into third-party libraries whose text
  is not part of the repository. The model takes these functions as parameters, bundled
  in one record, and is proved for every choice of them:
  \<^item> \<open>JSON_parse\<close>: \<open>JSON.parse\<close>, \<open>None\<close> when it throws a SyntaxError;
  \<^item> \<open>JSON_stringify\<close>: \<open>JSON.stringify\<close>;
  \<^item> \<open>String_of\<close>: the text \<open>new Error(m)\<close> stores for a message \<open>m\<close> that is not a string;
  \<^item> \<open>stack_text\<close>: the stack text the engine attaches to a new error;
  \<^item> \<open>str_number\<close>, \<open>str_object\<close>, \<open>str_array\<close>: how the validation library reads a
    string offered where a number, an object or an array is expected (its \<open>convert\<close>
    option is on by default).
\<close>

datatype number_reading = NotNumber | Unsafe | Num rat

record lib =
  JSON_parse :: "string \<Rightarrow> json option"
  JSON_stringify :: "json \<Rightarrow> string"
  String_of :: "json \<Rightarrow> string"
  stack_text :: string
  str_number :: "string \<Rightarrow> number_reading"
  str_object :: "string \<Rightarrow> (string \<times> json) list option"
  str_array :: "string \<Rightarrow> json list option"

definition js_String :: "lib \<Rightarrow> json \<Rightarrow> string" where
  "js_String L v = (case v of JStr s \<Rightarrow> s | _ \<Rightarrow> String_of L v)"

section \<open>Environment (config/environment.js)\<close>

text \<open>
  The variables of \<open>process.env\<close> the core reads. A string variable is \<open>None\<close> when unset.
  The numeric defaults are held as the result of \<open>parseFloat\<close> (\<open>parseInt\<close> for
  \<open>DEFAULT_MAX_TOKENS\<close>) of the variable, \<open>None\<close> standing for NaN (variable unset or
  not numeric).
\<close>

record process_env =
  NODE_ENV :: "string option"
  OPENAI_API_KEY :: "string option"
  OPENAI_BASE_URL :: "string option"
  ANTHROPIC_API_KEY :: "string option"
  ANTHROPIC_BASE_URL :: "string option"
  GROQ_API_KEY :: "string option"
  GROQ_BASE_URL :: "string option"
  GOOGLE_AI_API_KEY :: "string option"
  GOOGLE_AI_BASE_URL :: "string option"
  DEFAULT_TEMPERATURE :: "rat option"
  DEFAULT_MAX_TOKENS :: "rat option"
  DEFAULT_TOP_P :: "rat option"
  DEFAULT_FREQUENCY_PENALTY :: "rat option"
  DEFAULT_PRESENCE_PENALTY :: "rat option"

record provider_config =
  apiKey :: "string option"
  baseUrl :: "string option"
  available :: bool

text \<open>\<open>!!process.env.X\<close>: set and not the empty string.\<close>

definition present :: "string option \<Rightarrow> bool" where
  "present v = (case v of None \<Rightarrow> False | Some s \<Rightarrow> s \<noteq> [])"

text \<open>
  \<open>configs[provider.toLowerCase()]\<close>. \<open>None\<close> is \<open>undefined\<close>. The object literal inherits
  from \<open>Object.prototype\<close>, whose only all-lowercase property names are \<open>constructor\<close>
  and \<open>__proto__\<close>: for these the lookup yields a truthy value on which \<open>apiKey\<close>,
  \<open>baseUrl\<close> and \<open>available\<close> are all undefined.
\<close>

definition getProviderConfig :: "process_env \<Rightarrow> string \<Rightarrow> provider_config option" where
  "getProviderConfig env provider =
     (let k = toLowerCase provider in
      if k = ''openai'' then
        Some \<lparr>apiKey = OPENAI_API_KEY env, baseUrl = OPENAI_BASE_URL env,
              available = present (OPENAI_API_KEY env)\<rparr>
      else if k = ''anthropic'' then
        Some \<lparr>apiKey = ANTHROPIC_API_KEY env, baseUrl = ANTHROPIC_BASE_URL env,
              available = present (ANTHROPIC_API_KEY env)\<rparr>
      else if k = ''groq'' then
        Some \<lparr>apiKey = GROQ_API_KEY env, baseUrl = GROQ_BASE_URL env,
              available = present (GROQ_API_KEY env)\<rparr>
      else if k = ''google'' then
        Some \<lparr>apiKey = GOOGLE_AI_API_KEY env, baseUrl = GOOGLE_AI_BASE_URL env,
              available = present (GOOGLE_AI_API_KEY env)\<rparr>
      else if k = ''constructor'' \<or> k = ''__proto__'' then
        Some \<lparr>apiKey = None, baseUrl = None, available = False\<rparr>
      else None)"

text \<open>\<open>parseFloat(process.env.X) || d\<close>: NaN and 0 are both falsy.\<close>

definition or_default :: "rat option \<Rightarrow> rat \<Rightarrow> rat" where
  "or_default parsed d = (case parsed of None \<Rightarrow> d | Some x \<Rightarrow> if x = 0 then d else x)"

definition getDefaultParameters :: "process_env \<Rightarrow> (string \<times> json) list" where
  "getDefaultParameters env =
     [(''temperature'', JNum (or_default (DEFAULT_TEMPERATURE env) (7/10))),
      (''max_tokens'', JNum (or_default (DEFAULT_MAX_TOKENS env) 1000)),
      (''top_p'', JNum (or_default (DEFAULT_TOP_P env) 1)),
      (''frequency_penalty'', JNum (or_default (DEFAULT_FREQUENCY_PENALTY env) 0)),
      (''presence_penalty'', JNum (or_default (DEFAULT_PRESENCE_PENALTY env) 0))]"

section \<open>Errors and the error handler (middleware/errorHandler.js)\<close>

text \<open>
  A thrown value, with the properties the code reads from it. \<open>err_response\<close> and
  \<open>err_request\<close> are the HTTP client's: the upstream's status and body when it answered
  with an error status, and whether a request was sent at all. \<open>err_statusCode = None\<close>
  is \<open>undefined\<close>.
\<close>

record js_error =
  err_name :: string
  err_message :: string
  err_statusCode :: "nat option"
  err_provider :: "string option"
  err_code :: "string option"
  err_response :: "(nat \<times> json) option"
  err_request :: bool
  err_stack :: string

definition APIError :: "lib \<Rightarrow> string \<Rightarrow> nat \<Rightarrow> string \<Rightarrow> js_error" where
  "APIError L msg statusCode provider =
     \<lparr>err_name = ''APIError'', err_message = msg, err_statusCode = Some statusCode,
      err_provider = Some provider, err_code = None, err_response = None,
      err_request = False, err_stack = stack_text L\<rparr>"

definition ConfigurationError :: "lib \<Rightarrow> string \<Rightarrow> string option \<Rightarrow> js_error" where
  "ConfigurationError L msg provider =
     \<lparr>err_name = ''ConfigurationError'', err_message = msg, err_statusCode = Some 500,
      err_provider = provider, err_code = None, err_response = None,
      err_request = False, err_stack = stack_text L\<rparr>"

text \<open>The engine's error for reading a property of \<open>undefined\<close> or \<open>null\<close>.\<close>

definition TypeError :: "lib \<Rightarrow> string \<Rightarrow> string \<Rightarrow> js_error" where
  "TypeError L what key =
     \<lparr>err_name = ''TypeError'',
      err_message = ''Cannot read properties of '' @ what @ '' (reading '' @ sq @ key @ sq @ '')'',
      err_statusCode = None, err_provider = None, err_code = None, err_response = None,
      err_request = False, err_stack = stack_text L\<rparr>"

definition getErrorMessage :: "nat \<Rightarrow> string" where
  "getErrorMessage statusCode =
     (case map_of
        [(400::nat, ''Bad Request - Please check your input parameters''),
         (401, ''Unauthorized - Invalid or missing API key''),
         (403, ''Forbidden - Access denied to the requested resource''),
         (404, ''Not Found - The requested resource was not found''),
         (429, ''Rate Limited - Too many requests, please try again later''),
         (500, ''Internal Server Error - Something went wrong on our end''),
         (502, ''Bad Gateway - The AI service is temporarily unavailable''),
         (503, ''Service Unavailable - The AI service is temporarily down''),
         (504, ''Gateway Timeout - The AI service took too long to respond'')] statusCode of
        None \<Rightarrow> ''An unexpected error occurred''
      | Some m \<Rightarrow> m)"

text \<open>
  What the handler needs of the request: the clock reading used for every timestamp,
  and the request id (\<open>req.id\<close>, or the generated one).
\<close>

record request_info =
  now :: string
  requestId :: string

definition formatErrorResponse :: "process_env \<Rightarrow> request_info \<Rightarrow> js_error \<Rightarrow> json" where
  "formatErrorResponse env req error =
     JObj ([(''error'', JStr (if err_name error = [] then ''Error'' else err_name error)),
            (''message'', JStr (err_message error)),
            (''timestamp'', JStr (now req)),
            (''requestId'', JStr (requestId req))]
           @ (case err_provider error of
                None \<Rightarrow> []
              | Some p \<Rightarrow> if p = [] then [] else [(''provider'', JStr p)])
           @ (case err_statusCode error of
                None \<Rightarrow> []
              | Some c \<Rightarrow> if c = 0 then [] else [(''userMessage'', JStr (getErrorMessage c))])
           @ (if NODE_ENV env = Some ''development'' \<and> err_stack error \<noteq> []
              then [(''stack'', JStr (err_stack error))] else []))"

section \<open>HTTP responses\<close>

text \<open>
  The response object as the routes drive it: \<open>status\<close> (200 until set), the headers
  set, the body given to \<open>res.json\<close>, the payloads of \<open>res.write\<close> that reached the
  client in order, and whether the response has ended. A \<open>res.write\<close> after the end
  does not reach the client; such payloads are kept in \<open>lost\<close>.
\<close>

record http_response =
  status :: nat
  headers :: "(string \<times> string) list"
  json_body :: "json option"
  written :: "string list"
  ended :: bool
  lost :: "string list"

definition fresh :: http_response where
  "fresh = \<lparr>status = 200, headers = [], json_body = None, written = [], ended = False, lost = []\<rparr>"

definition res_json :: "nat \<Rightarrow> json \<Rightarrow> http_response \<Rightarrow> http_response" where
  "res_json code b res = res\<lparr>status := code, json_body := Some b, ended := True\<rparr>"

definition setHeader :: "string \<Rightarrow> string \<Rightarrow> http_response \<Rightarrow> http_response" where
  "setHeader k v res = res\<lparr>headers := AList.update k v (headers res)\<rparr>"

definition res_write :: "string \<Rightarrow> http_response \<Rightarrow> http_response" where
  "res_write s res =
     (if ended res then res\<lparr>lost := lost res @ [s]\<rparr> else res\<lparr>written := written res @ [s]\<rparr>)"

definition res_end :: "http_response \<Rightarrow> http_response" where
  "res_end res = res\<lparr>ended := True\<rparr>"

definition headersSent :: "http_response \<Rightarrow> bool" where
  "headersSent res = (ended res \<or> written res \<noteq> [])"

text \<open>
  \<open>errorHandler\<close>. When the headers are already out it hands the error on to the
  framework's default handler, which can only close the connection.
\<close>

definition errorHandler :: "process_env \<Rightarrow> request_info \<Rightarrow> js_error \<Rightarrow> http_response \<Rightarrow> http_response" where
  "errorHandler env req err res =
     (if headersSent res then res_end res
      else
        let statusCode0 = (case err_statusCode err of None \<Rightarrow> 500
                           | Some c \<Rightarrow> if c = 0 then 500 else c);
            statusCode =
              (if err_name err = ''ValidationError'' then 400
               else if err_name err = ''UnauthorizedError'' then 401
               else if err_code err = Some ''ECONNREFUSED'' \<or> err_code err = Some ''ENOTFOUND'' then 502
               else if err_code err = Some ''ETIMEDOUT'' then 504
               else statusCode0)
        in res_json statusCode (formatErrorResponse env req err) res)"

section \<open>Request validation (middleware/validation.js)\<close>

text \<open>
  \<open>requestSchema.validate(req.body, {abortEarly: false, stripUnknown: true})\<close>. The
  schema is the repository's; the way the validation library reads it is the library's
  documented behaviour: keys are checked in the schema's order and, since \<open>abortEarly\<close>
  is off, every report is collected; a value outside a \<open>valid(...)\<close> list is reported
  and its type is then still checked; a missing key with a \<open>default\<close> takes it; keys
  the schema does not name are dropped. A report has the path of the offending value,
  the message and the value.
\<close>

record joi_detail =
  path :: "string list"
  message :: string
  ctx_value :: json

definition report :: "string list \<Rightarrow> string \<Rightarrow> json \<Rightarrow> joi_detail" where
  "report p m v = \<lparr>path = p, message = m, ctx_value = v\<rparr>"

text \<open>\<open>xs.join(sep)\<close> for an array of texts.\<close>

fun join :: "string \<Rightarrow> string list \<Rightarrow> string" where
  "join sep [] = []"
| "join sep [x] = x"
| "join sep (x # y # ys) = x @ sep @ join sep (y # ys)"

definition label :: "string \<Rightarrow> string" where
  "label l = dq @ l @ dq"

definition read_number :: "lib \<Rightarrow> json \<Rightarrow> number_reading" where
  "read_number L v =
     (case v of
        JNum x \<Rightarrow> if 9007199254740991 < \<bar>x\<bar> then Unsafe else Num x
      | JStr s \<Rightarrow> str_number L s
      | _ \<Rightarrow> NotNumber)"

definition read_object :: "lib \<Rightarrow> json \<Rightarrow> (string \<times> json) list option" where
  "read_object L v = (case v of JObj kvs \<Rightarrow> Some kvs | JStr s \<Rightarrow> str_object L s | _ \<Rightarrow> None)"

definition read_array :: "lib \<Rightarrow> json \<Rightarrow> json list option" where
  "read_array L v = (case v of JArr xs \<Rightarrow> Some xs | JStr s \<Rightarrow> str_array L s | _ \<Rightarrow> None)"

definition read_boolean :: "json \<Rightarrow> bool option" where
  "read_boolean v =
     (case v of
        JBool b \<Rightarrow> Some b
      | JStr s \<Rightarrow> if toLowerCase s = ''true'' then Some True
                  else if toLowerCase s = ''false'' then Some False else None
      | _ \<Rightarrow> None)"

text \<open>\<open>prompt: Joi.string().required().min(1).max(10000)\<close> with its messages.\<close>

definition prompt_schema :: "json \<Rightarrow> joi_detail list" where
  "prompt_schema v =
     (case v of
        JUndefined \<Rightarrow> [report [''prompt''] ''Prompt is required'' v]
      | JStr s \<Rightarrow>
          if s = [] then [report [''prompt''] ''Prompt cannot be empty'' v]
          else (if length s < 1
                then [report [''prompt''] ''Prompt must be at least 1 character long'' v] else [])
             @ (if 10000 < length s
                then [report [''prompt''] ''Prompt cannot exceed 10000 characters'' v] else [])
      | _ \<Rightarrow> [report [''prompt''] (label ''prompt'' @ '' must be a string'') v])"

text \<open>\<open>Joi.string().required().valid(...)\<close> with messages for \<open>any.only\<close> and \<open>any.required\<close>.\<close>

definition enum_schema :: "string \<Rightarrow> string list \<Rightarrow> string \<Rightarrow> string \<Rightarrow> json \<Rightarrow> joi_detail list" where
  "enum_schema key allowed required_msg only_msg v =
     (case v of
        JUndefined \<Rightarrow> [report [key] required_msg v]
      | _ \<Rightarrow>
          if v \<in> set (map JStr allowed) then []
          else report [key] only_msg v #
            (case v of
               JStr s \<Rightarrow> if s = [] then [report [key] (label key @ '' is not allowed to be empty'') v]
                         else []
             | _ \<Rightarrow> [report [key] (label key @ '' must be a string'') v]))"

definition valid_models :: "string list" where
  "valid_models =
     [''gpt-4'', ''gpt-4-turbo'', ''gpt-4o'', ''gpt-4o-mini'', ''gpt-3.5-turbo'',
      ''llama-3.1-8b-instant'', ''gemma2-9b-it'', ''openai/gpt-oss-120b'',
      ''gemini-2.5-pro'', ''gemini-2.5-flash'', ''gemini-2.5-flash-lite'', ''gemini-2.0-flash'',
      ''gemini-2.0-flash-lite'',
      ''claude-opus-4-1-20250805'', ''claude-opus-4-20250514'', ''claude-sonnet-4-20250514'']"

definition valid_providers :: "string list" where
  "valid_providers = [''openai'', ''anthropic'', ''groq'', ''google'']"

text \<open>
  \<open>Joi.number().min(lo).max(hi).default(d)\<close> under \<open>parameters\<close>. The result is the
  reports and the value the key has afterwards.
\<close>

definition number_schema ::
    "lib \<Rightarrow> string \<Rightarrow> rat \<Rightarrow> string \<Rightarrow> rat \<Rightarrow> string \<Rightarrow> rat \<Rightarrow> json \<Rightarrow> joi_detail list \<times> json" where
  "number_schema L key lo lo_text hi hi_text d v =
     (let p = [''parameters'', key]; l = label (''parameters.'' @ key) in
      case v of
        JUndefined \<Rightarrow> ([], JNum d)
      | _ \<Rightarrow>
          (case read_number L v of
             NotNumber \<Rightarrow> ([report p (l @ '' must be a number'') v], v)
           | Unsafe \<Rightarrow> ([report p (l @ '' must be a safe number'') v], v)
           | Num x \<Rightarrow>
               ((if x < lo
                 then [report p (l @ '' must be greater than or equal to '' @ lo_text) (JNum x)]
                 else [])
                @ (if hi < x
                   then [report p (l @ '' must be less than or equal to '' @ hi_text) (JNum x)]
                   else []),
                JNum x)))"

text \<open>\<open>stream: Joi.boolean().default(false)\<close>.\<close>

definition boolean_schema :: "json \<Rightarrow> joi_detail list \<times> json" where
  "boolean_schema v =
     (case v of
        JUndefined \<Rightarrow> ([], JBool False)
      | _ \<Rightarrow>
          (case read_boolean v of
             None \<Rightarrow> ([report [''parameters'', ''stream'']
                         (label ''parameters.stream'' @ '' must be a boolean'') v], v)
           | Some b \<Rightarrow> ([], JBool b)))"

text \<open>\<open>stop: Joi.array().items(Joi.string()).max(4).optional()\<close>: items first, then the length.\<close>

definition stop_item :: "nat \<Rightarrow> json \<Rightarrow> joi_detail list" where
  "stop_item i v =
     (let p = [''parameters'', ''stop'', show_nat i];
          l = label (''parameters.stop['' @ show_nat i @ '']'') in
      case v of
        JUndefined \<Rightarrow> [report p (l @ '' must not be a sparse array item'') v]
      | JStr s \<Rightarrow> if s = [] then [report p (l @ '' is not allowed to be empty'') v] else []
      | _ \<Rightarrow> [report p (l @ '' must be a string'') v])"

definition stop_schema :: "lib \<Rightarrow> json \<Rightarrow> joi_detail list \<times> json" where
  "stop_schema L v =
     (case v of
        JUndefined \<Rightarrow> ([], JUndefined)
      | _ \<Rightarrow>
          (case read_array L v of
             None \<Rightarrow> ([report [''parameters'', ''stop'']
                         (label ''parameters.stop'' @ '' must be an array'') v], v)
           | Some xs \<Rightarrow>
               (concat (map (\<lambda>(i, x). stop_item i x) (enumerate 0 xs))
                @ (if 4 < length xs
                   then [report [''parameters'', ''stop'']
                           (label ''parameters.stop''
                            @ '' must contain less than or equal to 4 items'') (JArr xs)]
                   else []),
                JArr xs)))"

text \<open>
  The seven keys of \<open>parameters\<close>, in the schema's order, each with its reports and its
  value afterwards.
\<close>

definition parameter_results :: "lib \<Rightarrow> (string \<times> json) list \<Rightarrow> (string \<times> joi_detail list \<times> json) list" where
  "parameter_results L ps =
     [(''temperature'',
         number_schema L ''temperature'' 0 ''0'' 2 ''2'' (7/10) (getp ''temperature'' ps)),
      (''max_tokens'',
         number_schema L ''max_tokens'' 1 ''1'' 8000 ''8000'' 1000 (getp ''max_tokens'' ps)),
      (''top_p'',
         number_schema L ''top_p'' 0 ''0'' 1 ''1'' 1 (getp ''top_p'' ps)),
      (''frequency_penalty'',
         number_schema L ''frequency_penalty'' (-2) ''-2'' 2 ''2'' 0 (getp ''frequency_penalty'' ps)),
      (''presence_penalty'',
         number_schema L ''presence_penalty'' (-2) ''-2'' 2 ''2'' 0 (getp ''presence_penalty'' ps)),
      (''stop'', stop_schema L (getp ''stop'' ps)),
      (''stream'', boolean_schema (getp ''stream'' ps))]"

text \<open>
  \<open>parameters: Joi.object({...}).default({})\<close>. A missing \<open>parameters\<close> becomes the
  literal default, the empty object: the defaults of the keys are applied only inside
  an object that is there. A key whose value afterwards is undefined is not a
  property of the result.
\<close>

definition parameters_schema :: "lib \<Rightarrow> json \<Rightarrow> joi_detail list \<times> (string \<times> json) list" where
  "parameters_schema L v =
     (case v of
        JUndefined \<Rightarrow> ([], [])
      | _ \<Rightarrow>
          (case read_object L v of
             None \<Rightarrow> ([report [''parameters'']
                         (label ''parameters'' @ '' must be of type object'') v], [])
           | Some ps \<Rightarrow>
               (let rs = parameter_results L ps in
                (concat (map (\<lambda>(k, ds, x). ds) rs),
                 filter (\<lambda>(k, x). x \<noteq> JUndefined) (map (\<lambda>(k, ds, x). (k, x)) rs)))))"

text \<open>All reports for a body that is an object, in the schema's order.\<close>

definition schema_details :: "lib \<Rightarrow> (string \<times> json) list \<Rightarrow> joi_detail list" where
  "schema_details L kvs =
     prompt_schema (getp ''prompt'' kvs)
     @ enum_schema ''model'' valid_models
         ''Model selection is required'' ''Invalid model selection'' (getp ''model'' kvs)
     @ enum_schema ''provider'' valid_providers
         ''Provider selection is required'' ''Invalid provider selection'' (getp ''provider'' kvs)
     @ fst (parameters_schema L (getp ''parameters'' kvs))"

text \<open>\<open>req.validatedData\<close>: the four keys of the schema and nothing else.\<close>

record validated =
  prompt :: string
  model :: string
  provider :: string
  parameters :: "(string \<times> json) list"

definition text_of :: "json \<Rightarrow> string" where
  "text_of v = (case v of JStr s \<Rightarrow> s | _ \<Rightarrow> [])"

definition schema_value :: "lib \<Rightarrow> (string \<times> json) list \<Rightarrow> validated" where
  "schema_value L kvs =
     \<lparr>prompt = text_of (getp ''prompt'' kvs),
      model = text_of (getp ''model'' kvs),
      provider = text_of (getp ''provider'' kvs),
      parameters = snd (parameters_schema L (getp ''parameters'' kvs))\<rparr>"

definition detail_json :: "joi_detail \<Rightarrow> json" where
  "detail_json d =
     JObj [(''field'', JStr (join ''.'' (path d))),
           (''message'', JStr (message d)),
           (''value'', ctx_value d)]"

definition validation_failed :: "request_info \<Rightarrow> joi_detail list \<Rightarrow> http_response" where
  "validation_failed req ds =
     res_json 400
       (JObj [(''error'', JStr ''Validation Error''),
              (''message'', JStr ''Request validation failed''),
              (''details'', JArr (map detail_json ds)),
              (''timestamp'', JStr (now req))]) fresh"

text \<open>
  The middleware \<open>validateRequest\<close>: \<open>Inl\<close> is the response it sends itself, \<open>Inr\<close> the
  validated data it attaches before calling \<open>next()\<close>. A body that is no object at all
  is reported at the root (empty path). With no body (\<open>undefined\<close>) the schema reports
  nothing and the middleware's own read of \<open>value.model\<close> throws, which the framework
  hands to the error handler.
\<close>

definition validateRequest :: "lib \<Rightarrow> process_env \<Rightarrow> request_info \<Rightarrow> json \<Rightarrow> http_response + validated" where
  "validateRequest L env req body =
     (case body of
        JUndefined \<Rightarrow> Inl (errorHandler env req (TypeError L ''undefined'' ''model'') fresh)
      | _ \<Rightarrow>
          (case read_object L body of
             None \<Rightarrow> Inl (validation_failed req
                            [report [] (label ''value'' @ '' must be of type object'') body])
           | Some kvs \<Rightarrow>
               if schema_details L kvs \<noteq> [] then Inl (validation_failed req (schema_details L kvs))
               else Inr (schema_value L kvs)))"

definition modelProviderMap :: "(string \<times> string list) list" where
  "modelProviderMap =
     [(''openai'', [''gpt-4'', ''gpt-4-turbo'', ''gpt-4o'', ''gpt-4o-mini'', ''gpt-3.5-turbo'']),
      (''groq'', [''llama-3.1-8b-instant'', ''gemma2-9b-it'', ''openai/gpt-oss-120b'']),
      (''google'', [''gemini-2.5-pro'', ''gemini-2.5-flash'', ''gemini-2.5-flash-lite'',
                    ''gemini-2.0-flash'', ''gemini-2.0-flash-lite'']),
      (''anthropic'', [''claude-opus-4-1-20250805'', ''claude-opus-4-20250514'',
                       ''claude-sonnet-4-20250514''])]"

text \<open>
  \<open>modelProviderMap[provider]?.includes(model) || false\<close>, for a provider name that the
  object literal does not inherit from \<open>Object.prototype\<close>: one of the four names of the
  table, or a name that is no property at all (the result is then \<open>false\<close>). For an
  inherited name (\<open>constructor\<close>, \<open>toString\<close>, \<open>__proto__\<close>, ...) the source finds a
  value without \<open>includes\<close> and throws a TypeError; the definition does not describe
  that case. The middleware calls the function only after \<open>validateRequest\<close>, whose
  schema restricts the provider to the four names, and every statement below uses it
  with one of the four.
\<close>

definition validateModelProvider :: "string \<Rightarrow> string \<Rightarrow> bool" where
  "validateModelProvider m p =
     (case map_of modelProviderMap p of None \<Rightarrow> False | Some ms \<Rightarrow> m \<in> set ms)"

definition validateModelCompatibility :: "request_info \<Rightarrow> validated \<Rightarrow> http_response + validated" where
  "validateModelCompatibility req data =
     (if \<not> validateModelProvider (model data) (provider data) then
        Inl (res_json 400
               (JObj [(''error'', JStr ''Compatibility Error''),
                      (''message'', JStr (''Model '' @ sq @ model data @ sq
                           @ '' is not compatible with provider '' @ sq @ provider data @ sq)),
                      (''timestamp'', JStr (now req))]) fresh)
      else Inr data)"

section \<open>Model services (services/modelService.js)\<close>

text \<open>
  One upstream call, as the adapter hands it to the HTTP client: URL, JSON body,
  headers, query parameters, the timeout in milliseconds, and whether the response is
  asked for as a stream.
\<close>

record post_request =
  url :: string
  payload :: json
  req_headers :: "(string \<times> string) list"
  query :: "(string \<times> string) list"
  timeout_ms :: nat
  as_stream :: bool

text \<open>
  The upstream provider, a black box: what the HTTP client's promise settles to for a
  request. \<open>Inl\<close> is a rejection; the client sets \<open>err_response\<close> when the upstream
  answered with an error status, only \<open>err_request\<close> when no answer came (connection
  failure, or the timeout, which the client reports with code \<open>ECONNABORTED\<close>), and
  neither when the failure came before anything was sent. \<open>Inr\<close> is \<open>response.data\<close>:
  the parsed body for \<open>post\<close>; for \<open>post_stream\<close> the texts of the \<open>data\<close> events the
  body stream will emit, in arrival order. \<open>stream_error\<close> is the \<open>error\<close> event with
  which that body stream breaks off after those \<open>data\<close> events, if it does not reach
  its end (a connection reset while streaming).
\<close>

record upstream =
  post :: "post_request \<Rightarrow> js_error + json"
  post_stream :: "post_request \<Rightarrow> js_error + string list"
  stream_error :: "post_request \<Rightarrow> js_error option"

datatype service_class = OpenAIService | AnthropicService | GroqService | GoogleAIService

record model_service =
  service_class :: service_class
  svc_provider :: string
  svc_config :: provider_config
  defaultParams :: "(string \<times> json) list"
  baseURL :: "string option"

text \<open>A template literal prints an undefined value as the word \<open>undefined\<close>.\<close>

definition interp :: "string option \<Rightarrow> string" where
  "interp v = (case v of None \<Rightarrow> ''undefined'' | Some s \<Rightarrow> s)"

text \<open>The constructors: \<open>BaseModelService\<close> first, then the subclass's \<open>baseURL\<close>.\<close>

definition new_service ::
    "lib \<Rightarrow> process_env \<Rightarrow> service_class \<Rightarrow> string \<Rightarrow> provider_config \<Rightarrow> js_error + model_service" where
  "new_service L env c p config =
     (if \<not> present (apiKey config)
      then Inl (ConfigurationError L (''API key not configured for '' @ p) (Some p))
      else Inr \<lparr>service_class = c, svc_provider = p, svc_config = config,
                defaultParams = getDefaultParameters env,
                baseURL = (if c = GoogleAIService \<and> \<not> present (baseUrl config)
                           then Some ''https://generativelanguage.googleapis.com''
                           else baseUrl config)\<rparr>)"

definition createModelService ::
    "lib \<Rightarrow> process_env \<Rightarrow> string \<Rightarrow> provider_config \<Rightarrow> js_error + model_service" where
  "createModelService L env p config =
     (let k = toLowerCase p in
      if k = ''openai'' then new_service L env OpenAIService ''openai'' config
      else if k = ''anthropic'' then new_service L env AnthropicService ''anthropic'' config
      else if k = ''groq'' then new_service L env GroqService ''groq'' config
      else if k = ''google'' then new_service L env GoogleAIService ''google'' config
      else Inl (ConfigurationError L (''Unsupported provider: '' @ p) None))"

text \<open>\<open>{...this.defaultParams, ...userParams}\<close>.\<close>

definition mergeParameters :: "model_service \<Rightarrow> (string \<times> json) list \<Rightarrow> (string \<times> json) list" where
  "mergeParameters svc userParams = fold (\<lambda>(k, v). AList.update k v) userParams (defaultParams svc)"

text \<open>\<open>v?.key\<close> and \<open>v.key\<close> for a key that is no index: the second throws on undefined and null.\<close>

definition opt_prop :: "string \<Rightarrow> json \<Rightarrow> json" where
  "opt_prop k v = (case v of JObj kvs \<Rightarrow> getp k kvs | _ \<Rightarrow> JUndefined)"

definition get_prop :: "lib \<Rightarrow> string \<Rightarrow> json \<Rightarrow> js_error + json" where
  "get_prop L k v =
     (case v of
        JUndefined \<Rightarrow> Inl (TypeError L ''undefined'' k)
      | JNull \<Rightarrow> Inl (TypeError L ''null'' k)
      | _ \<Rightarrow> Inr (opt_prop k v))"

text \<open>\<open>v[0]\<close>.\<close>

definition get_index0 :: "lib \<Rightarrow> json \<Rightarrow> js_error + json" where
  "get_index0 L v =
     (case v of
        JUndefined \<Rightarrow> Inl (TypeError L ''undefined'' ''0'')
      | JNull \<Rightarrow> Inl (TypeError L ''null'' ''0'')
      | JArr xs \<Rightarrow> Inr (case xs of [] \<Rightarrow> JUndefined | x # _ \<Rightarrow> x)
      | JStr s \<Rightarrow> Inr (case s of [] \<Rightarrow> JUndefined | c # _ \<Rightarrow> JStr [c])
      | JObj kvs \<Rightarrow> Inr (getp ''0'' kvs)
      | _ \<Rightarrow> Inr JUndefined)"

definition and_then :: "js_error + 'a \<Rightarrow> ('a \<Rightarrow> js_error + 'b) \<Rightarrow> js_error + 'b" where
  "and_then r f = (case r of Inl e \<Rightarrow> Inl e | Inr x \<Rightarrow> f x)"

text \<open>\<open>handleApiError\<close> always throws; the model returns what it throws.\<close>

definition handleApiError :: "lib \<Rightarrow> string \<Rightarrow> js_error \<Rightarrow> string \<Rightarrow> js_error" where
  "handleApiError L p error operation =
     (case err_response error of
        Some (st, data) \<Rightarrow>
          (let m1 = opt_prop ''message'' (opt_prop ''error'' data);
               m2 = opt_prop ''message'' data;
               msg = (if truthy m1 then js_String L m1
                      else if truthy m2 then js_String L m2
                      else operation @ '' failed'')
           in APIError L msg st p)
      | None \<Rightarrow>
          if err_request error then APIError L (''Network error during '' @ operation) 502 p
          else APIError L (''Unexpected error during '' @ operation @ '': '' @ err_message error)
                 500 p)"

definition user_message :: "string \<Rightarrow> json" where
  "user_message p = JArr [JObj [(''role'', JStr ''user''), (''content'', JStr p)]]"

text \<open>The request of the OpenAI and Groq adapters (the two bodies are the same text).\<close>

definition chat_completions_request ::
    "model_service \<Rightarrow> string \<Rightarrow> string \<Rightarrow> (string \<times> json) list \<Rightarrow> bool \<Rightarrow> post_request" where
  "chat_completions_request svc p m params streaming =
     \<lparr>url = interp (baseURL svc) @ ''/chat/completions'',
      payload = JObj [(''model'', JStr m),
                      (''messages'', user_message p),
                      (''temperature'', getp ''temperature'' params),
                      (''max_tokens'', getp ''max_tokens'' params),
                      (''top_p'', getp ''top_p'' params),
                      (''frequency_penalty'', getp ''frequency_penalty'' params),
                      (''presence_penalty'', getp ''presence_penalty'' params),
                      (''stop'', getp ''stop'' params),
                      (''stream'', JBool streaming)],
      req_headers = [(''Authorization'', ''Bearer '' @ interp (apiKey (svc_config svc))),
                     (''Content-Type'', ''application/json'')],
      query = [],
      timeout_ms = 60000,
      as_stream = streaming\<rparr>"

definition anthropic_request ::
    "model_service \<Rightarrow> string \<Rightarrow> string \<Rightarrow> (string \<times> json) list \<Rightarrow> post_request" where
  "anthropic_request svc p m params =
     \<lparr>url = interp (baseURL svc) @ ''/v1/messages'',
      payload = JObj [(''model'', JStr m),
                      (''messages'', user_message p),
                      (''max_tokens'', getp ''max_tokens'' params),
                      (''temperature'', getp ''temperature'' params),
                      (''top_p'', getp ''top_p'' params),
                      (''stop_sequences'', getp ''stop'' params)],
      req_headers = [(''x-api-key'', interp (apiKey (svc_config svc))),
                     (''Content-Type'', ''application/json''),
                     (''anthropic-version'', ''2023-06-01'')],
      query = [],
      timeout_ms = 60000,
      as_stream = False\<rparr>"

definition google_request ::
    "model_service \<Rightarrow> string \<Rightarrow> string \<Rightarrow> (string \<times> json) list \<Rightarrow> post_request" where
  "google_request svc p m params =
     \<lparr>url = interp (baseURL svc) @ ''/v1beta/models/'' @ m @ '':generateContent'',
      payload = JObj [(''contents'', JArr [JObj [(''parts'', JArr [JObj [(''text'', JStr p)]])]]),
                      (''generationConfig'',
                         JObj [(''temperature'', getp ''temperature'' params),
                               (''maxOutputTokens'', getp ''max_tokens'' params),
                               (''topP'', getp ''top_p'' params),
                               (''stopSequences'', getp ''stop'' params)])],
      req_headers = [(''Content-Type'', ''application/json'')],
      query = [(''key'', interp (apiKey (svc_config svc)))],
      timeout_ms = 60000,
      as_stream = False\<rparr>"

definition completion_request ::
    "model_service \<Rightarrow> string \<Rightarrow> string \<Rightarrow> (string \<times> json) list \<Rightarrow> post_request" where
  "completion_request svc p m params =
     (case service_class svc of
        OpenAIService \<Rightarrow> chat_completions_request svc p m params False
      | GroqService \<Rightarrow> chat_completions_request svc p m params False
      | AnthropicService \<Rightarrow> anthropic_request svc p m params
      | GoogleAIService \<Rightarrow> google_request svc p m params)"

text \<open>
  The mapping of a success body to the normalized response, one per adapter, with the
  property names each adapter writes. A read that throws inside the adapter's \<open>try\<close> is
  an \<open>Inl\<close> here.
\<close>

definition openai_normalize :: "lib \<Rightarrow> json \<Rightarrow> js_error + json" where
  "openai_normalize L data =
     and_then (get_prop L ''choices'' data) (\<lambda>choices.
     and_then (get_index0 L choices) (\<lambda>choice.
     and_then (get_prop L ''message'' choice) (\<lambda>msg.
     and_then (get_prop L ''content'' msg) (\<lambda>content.
     and_then (get_prop L ''usage'' data) (\<lambda>usage.
     and_then (get_prop L ''model'' data) (\<lambda>mdl.
     and_then (get_prop L ''finish_reason'' choice) (\<lambda>finish.
       Inr (JObj [(''content'', content),
                  (''usage'', usage),
                  (''metadata'', JObj [(''model'', mdl), (''finish_reason'', finish)])]))))))))"

definition anthropic_normalize :: "lib \<Rightarrow> json \<Rightarrow> js_error + json" where
  "anthropic_normalize L data =
     and_then (get_prop L ''content'' data) (\<lambda>blocks.
     and_then (get_index0 L blocks) (\<lambda>block.
     and_then (get_prop L ''text'' block) (\<lambda>txt.
     and_then (get_prop L ''usage'' data) (\<lambda>usage.
     and_then (get_prop L ''model'' data) (\<lambda>mdl.
     and_then (get_prop L ''stop_reason'' data) (\<lambda>stop.
       Inr (JObj [(''content'', txt),
                  (''usage'', usage),
                  (''metadata'', JObj [(''model'', mdl), (''stop_reason'', stop)])])))))))"

text \<open>
  \<open>new APIError('No response generated', 'GOOGLE_AI_NO_RESPONSE')\<close>, thrown inside the
  adapter's own \<open>try\<close>. Its second argument lands in \<open>statusCode\<close> as a text; the
  \<open>catch\<close> that receives it reads only \<open>response\<close>, \<open>request\<close> and \<open>message\<close>, so
  the model leaves the field undefined.
\<close>

definition no_response :: "lib \<Rightarrow> js_error" where
  "no_response L =
     \<lparr>err_name = ''APIError'', err_message = ''No response generated'',
      err_statusCode = None, err_provider = None, err_code = None, err_response = None,
      err_request = False, err_stack = stack_text L\<rparr>"

definition google_normalize :: "lib \<Rightarrow> string \<Rightarrow> json \<Rightarrow> js_error + json" where
  "google_normalize L m data =
     and_then (get_prop L ''candidates'' data) (\<lambda>candidates.
     and_then (case candidates of JUndefined \<Rightarrow> Inr JUndefined | JNull \<Rightarrow> Inr JUndefined
               | _ \<Rightarrow> get_index0 L candidates) (\<lambda>candidate.
       if \<not> truthy candidate then Inl (no_response L)
       else
         and_then (get_prop L ''content'' candidate) (\<lambda>content.
         and_then (get_prop L ''parts'' content) (\<lambda>parts.
         and_then (get_index0 L parts) (\<lambda>part.
         and_then (get_prop L ''text'' part) (\<lambda>txt.
         and_then (get_prop L ''finishReason'' candidate) (\<lambda>finish.
           Inr (JObj [(''content'', txt),
                      (''metadata'', JObj [(''model'', JStr m), (''finish_reason'', finish)])]))))))))"

definition normalize :: "lib \<Rightarrow> model_service \<Rightarrow> string \<Rightarrow> json \<Rightarrow> js_error + json" where
  "normalize L svc m data =
     (case service_class svc of
        OpenAIService \<Rightarrow> openai_normalize L data
      | GroqService \<Rightarrow> openai_normalize L data
      | AnthropicService \<Rightarrow> anthropic_normalize L data
      | GoogleAIService \<Rightarrow> google_normalize L m data)"

definition completion_operation :: "service_class \<Rightarrow> string" where
  "completion_operation c =
     (case c of
        OpenAIService \<Rightarrow> ''OpenAI completion''
      | GroqService \<Rightarrow> ''Groq completion''
      | AnthropicService \<Rightarrow> ''Anthropic completion''
      | GoogleAIService \<Rightarrow> ''Google AI completion'')"

text \<open>
  \<open>generateCompletion\<close>: the value the promise settles to, and the upstream calls made.
  Everything after \<open>mergeParameters\<close> is inside \<open>try\<close>, and \<open>catch\<close> rethrows through
  \<open>handleApiError\<close>.
\<close>

definition generateCompletion ::
    "lib \<Rightarrow> upstream \<Rightarrow> model_service \<Rightarrow> string \<Rightarrow> string \<Rightarrow> (string \<times> json) list
       \<Rightarrow> (js_error + json) \<times> post_request list" where
  "generateCompletion L up svc p m ps =
     (let params = mergeParameters svc ps;
          rq = completion_request svc p m params;
          operation = completion_operation (service_class svc)
      in (case and_then (post up rq) (normalize L svc m) of
            Inl e \<Rightarrow> Inl (handleApiError L (svc_provider svc) e operation)
          | Inr r \<Rightarrow> Inr r,
          [rq]))"

text \<open>
  The \<open>data\<close> listener of the OpenAI and Groq adapters, for one event text: the chunks it
  passes to \<open>onChunk\<close>, in order. \<open>split_nl\<close> is \<open>split('\n')\<close>; a line is kept when
  \<open>line.trim()\<close> is not empty. A \<open>[DONE]\<close> line returns from the listener, leaving the
  rest of this event unread. A frame that does not parse, or whose reads throw, is
  skipped by the inner \<open>try\<close>.
\<close>

fun split_nl :: "string \<Rightarrow> string list" where
  "split_nl [] = [[]]"
| "split_nl (c # cs) =
     (if c = CHR 0x0A then [] # split_nl cs
      else (case split_nl cs of [] \<Rightarrow> [[c]] | l # ls \<Rightarrow> (c # l) # ls))"

definition is_space :: "char \<Rightarrow> bool" where
  "is_space c = (c \<in> {CHR 0x09, CHR 0x0A, CHR 0x0B, CHR 0x0C, CHR 0x0D, CHR 0x20, CHR 0xA0})"

definition blank :: "string \<Rightarrow> bool" where
  "blank l = list_all is_space l"

definition frame_chunks :: "lib \<Rightarrow> string \<Rightarrow> json list" where
  "frame_chunks L data =
     (case JSON_parse L data of
        None \<Rightarrow> []
      | Some parsed \<Rightarrow>
          (case and_then (get_prop L ''choices'' parsed) (get_index0 L) of
             Inl e \<Rightarrow> []
           | Inr first \<Rightarrow>
               (let content = opt_prop ''content'' (opt_prop ''delta'' first) in
                if truthy content
                then [JObj [(''content'', content), (''type'', JStr ''content'')]]
                else [])))"

fun listener_lines :: "lib \<Rightarrow> string list \<Rightarrow> json list" where
  "listener_lines L [] = []"
| "listener_lines L (line # rest) =
     (if take 6 line = ''data: '' then
        (if drop 6 line = ''[DONE]'' then []
         else frame_chunks L (drop 6 line) @ listener_lines L rest)
      else listener_lines L rest)"

definition on_data :: "lib \<Rightarrow> string \<Rightarrow> json list" where
  "on_data L chunk = listener_lines L (filter (\<lambda>l. \<not> blank l) (split_nl chunk))"

text \<open>
  What a call of \<open>generateStreamingCompletion\<close> does to \<open>onChunk\<close>: the chunks passed
  before the returned promise resolves, and the chunks passed afterwards. The OpenAI
  and Groq adapters only attach the \<open>data\<close> listener to the upstream's body stream and
  return; nothing awaits the stream, so the listener runs, once per \<open>data\<close> event, after
  the promise has resolved and the caller has continued. No listener is attached for
  the stream's \<open>error\<close> event, so \<open>stream_error\<close> is read nowhere: it rejects no promise
  and calls nothing of the adapter or the route (what the runtime does with an \<open>error\<close>
  event that has no listener comes after the response has been ended and is not part
  of the response). The Anthropic and Google adapters
  await \<open>generateCompletion\<close> and call \<open>onChunk\<close> before they return.
\<close>

record streaming =
  before_return :: "json list"
  after_return :: "json list"

definition streaming_operation :: "service_class \<Rightarrow> string" where
  "streaming_operation c =
     (case c of
        OpenAIService \<Rightarrow> ''OpenAI streaming completion''
      | GroqService \<Rightarrow> ''Groq streaming completion''
      | AnthropicService \<Rightarrow> ''Anthropic completion''
      | GoogleAIService \<Rightarrow> ''Google AI completion'')"

definition listen_streaming ::
    "lib \<Rightarrow> upstream \<Rightarrow> model_service \<Rightarrow> string \<Rightarrow> string \<Rightarrow> (string \<times> json) list
       \<Rightarrow> (js_error + streaming) \<times> post_request list" where
  "listen_streaming L up svc p m ps =
     (let params = mergeParameters svc ps;
          rq = chat_completions_request svc p m params True
      in (case post_stream up rq of
            Inl e \<Rightarrow> Inl (handleApiError L (svc_provider svc) e
                            (streaming_operation (service_class svc)))
          | Inr events \<Rightarrow> Inr \<lparr>before_return = [], after_return = concat (map (on_data L) events)\<rparr>,
          [rq]))"

definition content_chunk :: "json \<Rightarrow> json" where
  "content_chunk result = JObj [(''content'', opt_prop ''content'' result), (''type'', JStr ''content'')]"

definition done_chunk :: json where
  "done_chunk = JObj [(''type'', JStr ''done'')]"

definition generateStreamingCompletion ::
    "lib \<Rightarrow> upstream \<Rightarrow> model_service \<Rightarrow> string \<Rightarrow> string \<Rightarrow> (string \<times> json) list
       \<Rightarrow> (js_error + streaming) \<times> post_request list" where
  "generateStreamingCompletion L up svc p m ps =
     (case service_class svc of
        OpenAIService \<Rightarrow> listen_streaming L up svc p m ps
      | GroqService \<Rightarrow> listen_streaming L up svc p m ps
      | AnthropicService \<Rightarrow>
          (case generateCompletion L up svc p m ps of
             (Inl e, posts) \<Rightarrow> (Inl e, posts)
           | (Inr result, posts) \<Rightarrow>
               (Inr \<lparr>before_return = [content_chunk result], after_return = []\<rparr>, posts))
      | GoogleAIService \<Rightarrow>
          (case generateCompletion L up svc p m ps of
             (Inl e, posts) \<Rightarrow> (Inl e, posts)
           | (Inr result, posts) \<Rightarrow>
               (Inr \<lparr>before_return = [content_chunk result, done_chunk], after_return = []\<rparr>,
                posts)))"

section \<open>Routes (routes/models.js)\<close>

definition model_entry :: "string \<Rightarrow> string \<Rightarrow> string \<Rightarrow> json" where
  "model_entry i n d = JObj [(''id'', JStr i), (''name'', JStr n), (''description'', JStr d)]"

definition modelMap :: "(string \<times> json list) list" where
  "modelMap =
     [(''openai'',
        [model_entry ''gpt-4'' ''GPT-4'' ''Most capable model, best for complex tasks'',
         model_entry ''gpt-4-turbo'' ''GPT-4 Turbo'' ''Faster and more efficient GPT-4'',
         model_entry ''gpt-4o'' ''GPT-4o'' ''Latest GPT-4 optimized model'',
         model_entry ''gpt-4o-mini'' ''GPT-4o Mini'' ''Compact version of GPT-4o'',
         model_entry ''gpt-3.5-turbo'' ''GPT-3.5 Turbo'' ''Fast and efficient for most tasks'']),
      (''groq'',
        [model_entry ''llama-3.1-8b-instant'' ''Llama 3.1 8B Instant''
           ''Fast Llama model for quick responses'',
         model_entry ''gemma2-9b-it'' ''Gemma2 9B IT'' ''Google Gemma2 instruction-tuned model'',
         model_entry ''openai/gpt-oss-120b'' ''GPT OSS 120B'' ''Large open-source GPT model'']),
      (''google'',
        [model_entry ''gemini-2.5-pro'' ''Gemini 2.5 Pro'' ''Most advanced Gemini model'',
         model_entry ''gemini-2.5-flash'' ''Gemini 2.5 Flash'' ''Fast and efficient Gemini model'',
         model_entry ''gemini-2.5-flash-lite'' ''Gemini 2.5 Flash-Lite'' ''Lightweight Gemini model'',
         model_entry ''gemini-2.0-flash'' ''Gemini 2.0 Flash''
           ''Previous generation fast Gemini model'',
         model_entry ''gemini-2.0-flash-lite'' ''Gemini 2.0 Flash-Lite''
           ''Previous generation lightweight Gemini model'']),
      (''anthropic'',
        [model_entry ''claude-opus-4-1-20250805'' ''Claude Opus 4.1'' ''Latest Claude Opus model'',
         model_entry ''claude-opus-4-20250514'' ''Claude Opus 4'' ''Most powerful Claude model'',
         model_entry ''claude-sonnet-4-20250514'' ''Claude Sonnet 4''
           ''Balanced Claude model for most tasks''])]"

text \<open>
  \<open>modelMap[provider] || []\<close>; the routes call it with one of the four names, or with a
  name whose configuration is available, which only the four can be.
\<close>

definition getProviderModels :: "string \<Rightarrow> json" where
  "getProviderModels p = JArr (case map_of modelMap p of None \<Rightarrow> [] | Some ms \<Rightarrow> ms)"

text \<open>\<open>GET /providers\<close>: the loop over the four names, then the body.\<close>

fun providerStatus :: "lib \<Rightarrow> process_env \<Rightarrow> string list \<Rightarrow> js_error + (string \<times> json) list" where
  "providerStatus L env [] = Inr []"
| "providerStatus L env (p # ps) =
     (case getProviderConfig env p of
        None \<Rightarrow> Inl (TypeError L ''undefined'' ''available'')
      | Some config \<Rightarrow>
          and_then (providerStatus L env ps) (\<lambda>rest.
            Inr ((p, JObj [(''available'', JBool (available config)),
                           (''models'', getProviderModels p)]) # rest)))"

definition get_providers :: "lib \<Rightarrow> process_env \<Rightarrow> request_info \<Rightarrow> http_response" where
  "get_providers L env req =
     (case providerStatus L env [''openai'', ''anthropic'', ''groq'', ''google''] of
        Inl e \<Rightarrow> errorHandler env req e fresh
      | Inr st \<Rightarrow>
          res_json 200 (JObj [(''providers'', JObj st), (''timestamp'', JStr (now req))]) fresh)"

definition provider_unavailable :: "string \<Rightarrow> http_response" where
  "provider_unavailable p =
     res_json 503
       (JObj [(''error'', JStr ''Provider Unavailable''),
              (''message'', JStr (''Provider '' @ sq @ p @ sq
                                  @ '' is not configured or API key is missing'')),
              (''provider'', JStr p)]) fresh"

text \<open>\<open>GET /:provider\<close>.\<close>

definition get_provider :: "process_env \<Rightarrow> request_info \<Rightarrow> string \<Rightarrow> http_response" where
  "get_provider env req p =
     (case getProviderConfig env p of
        None \<Rightarrow>
          res_json 404
            (JObj [(''error'', JStr ''Provider Not Found''),
                   (''message'', JStr (''Provider '' @ sq @ p @ sq @ '' is not supported'')),
                   (''supportedProviders'',
                      JArr [JStr ''openai'', JStr ''anthropic'', JStr ''groq'', JStr ''google''])])
            fresh
      | Some config \<Rightarrow>
          if \<not> available config then provider_unavailable p
          else res_json 200
                 (JObj [(''provider'', JStr p),
                        (''models'', getProviderModels p),
                        (''available'', JBool True),
                        (''timestamp'', JStr (now req))]) fresh)"

text \<open>
  What a route did besides answering: the adapters it constructed and the upstream
  calls they made, in order.
\<close>

datatype event = Constructed string | Posted post_request

text \<open>
  The handler of \<open>POST /chat\<close>, behind the two validation middlewares. An error thrown
  in it reaches \<open>errorHandler\<close> through \<open>asyncHandler\<close>. \<open>elapsed\<close> is the measured
  duration.
\<close>

definition chat_handler ::
    "lib \<Rightarrow> process_env \<Rightarrow> upstream \<Rightarrow> request_info \<Rightarrow> rat \<Rightarrow> validated \<Rightarrow> http_response \<times> event list" where
  "chat_handler L env up req elapsed data =
     (case getProviderConfig env (provider data) of
        None \<Rightarrow> (provider_unavailable (provider data), [])
      | Some config \<Rightarrow>
          if \<not> available config then (provider_unavailable (provider data), [])
          else
            (case createModelService L env (provider data) config of
               Inl e \<Rightarrow> (errorHandler env req e fresh, [])
             | Inr svc \<Rightarrow>
                 (case generateCompletion L up svc (prompt data) (model data) (parameters data) of
                    (Inl e, posts) \<Rightarrow>
                      (errorHandler env req e fresh,
                       Constructed (svc_provider svc) # map Posted posts)
                  | (Inr response, posts) \<Rightarrow>
                      (res_json 200
                         (JObj [(''success'', JBool True),
                                (''provider'', JStr (provider data)),
                                (''model'', JStr (model data)),
                                (''response'',
                                   JObj [(''content'', opt_prop ''content'' response),
                                         (''usage'', opt_prop ''usage'' response),
                                         (''metadata'', opt_prop ''metadata'' response)]),
                                (''duration'', JNum elapsed),
                                (''timestamp'', JStr (now req))]) fresh,
                       Constructed (svc_provider svc) # map Posted posts))))"

definition chat_route ::
    "lib \<Rightarrow> process_env \<Rightarrow> upstream \<Rightarrow> request_info \<Rightarrow> rat \<Rightarrow> json \<Rightarrow> http_response \<times> event list" where
  "chat_route L env up req elapsed body =
     (case validateRequest L env req body of
        Inl res \<Rightarrow> (res, [])
      | Inr data \<Rightarrow>
          (case validateModelCompatibility req data of
             Inl res \<Rightarrow> (res, [])
           | Inr data' \<Rightarrow> chat_handler L env up req elapsed data'))"

text \<open>One server-sent event for a chunk, and the terminator.\<close>

definition sse :: "lib \<Rightarrow> json \<Rightarrow> string" where
  "sse L chunk = ''data: '' @ JSON_stringify L chunk @ nl @ nl"

definition sse_done :: string where
  "sse_done = ''data: [DONE]'' @ nl @ nl"

definition stream_headers :: "http_response \<Rightarrow> http_response" where
  "stream_headers res =
     setHeader ''Access-Control-Allow-Origin'' ''*''
       (setHeader ''Connection'' ''keep-alive''
          (setHeader ''Cache-Control'' ''no-cache''
             (setHeader ''Content-Type'' ''text/event-stream'' res)))"

text \<open>The \<open>catch\<close> of the streaming handler: one error event, then the end.\<close>

definition stream_failed :: "lib \<Rightarrow> js_error \<Rightarrow> http_response \<Rightarrow> http_response" where
  "stream_failed L e res =
     res_end (res_write (sse L (JObj [(''error'', JStr (err_message e))])) res)"

text \<open>
  The handler of \<open>POST /stream\<close>. \<open>onChunk\<close> writes one event per chunk. When the awaited
  call returns, the handler writes the terminator and ends the response; the chunks an
  adapter passes after its return are written to the response as it is then.
\<close>

definition stream_handler ::
    "lib \<Rightarrow> process_env \<Rightarrow> upstream \<Rightarrow> request_info \<Rightarrow> validated \<Rightarrow> http_response \<times> event list" where
  "stream_handler L env up req data =
     (case getProviderConfig env (provider data) of
        None \<Rightarrow> (provider_unavailable (provider data), [])
      | Some config \<Rightarrow>
          if \<not> available config then (provider_unavailable (provider data), [])
          else
            (let res1 = stream_headers fresh in
             case createModelService L env (provider data) config of
               Inl e \<Rightarrow> (stream_failed L e res1, [])
             | Inr svc \<Rightarrow>
                 (case generateStreamingCompletion L up svc (prompt data) (model data)
                         (AList.update ''stream'' (JBool True) (parameters data)) of
                    (Inl e, posts) \<Rightarrow>
                      (stream_failed L e res1, Constructed (svc_provider svc) # map Posted posts)
                  | (Inr s, posts) \<Rightarrow>
                      (let res2 = fold (\<lambda>c. res_write (sse L c)) (before_return s) res1;
                           res3 = res_end (res_write sse_done res2);
                           res4 = fold (\<lambda>c. res_write (sse L c)) (after_return s) res3
                       in (res4, Constructed (svc_provider svc) # map Posted posts)))))"

definition stream_route ::
    "lib \<Rightarrow> process_env \<Rightarrow> upstream \<Rightarrow> request_info \<Rightarrow> json \<Rightarrow> http_response \<times> event list" where
  "stream_route L env up req body =
     (case validateRequest L env req body of
        Inl res \<Rightarrow> (res, [])
      | Inr data \<Rightarrow>
          (case validateModelCompatibility req data of
             Inl res \<Rightarrow> (res, [])
           | Inr data' \<Rightarrow> stream_handler L env up req data'))"

text \<open>A member of the JSON body of a response; undefined when there is no such body.\<close>

definition body_member :: "string \<Rightarrow> http_response \<Rightarrow> json" where
  "body_member k res = (case json_body res of None \<Rightarrow> JUndefined | Some b \<Rightarrow> opt_prop k b)"

text \<open>\<open>Object.keys(v)\<close> for an object; no keys otherwise.\<close>

definition object_keys :: "json \<Rightarrow> string list" where
  "object_keys v = (case v of JObj kvs \<Rightarrow> map fst kvs | _ \<Rightarrow> [])"

section \<open>The data model's constraints on a request body\<close>






definition is_index :: "string \<Rightarrow> bool" where
  "is_index s = (s \<noteq> [] \<and> list_all (\<lambda>c. c \<in> set ''0123456789'') s)"

definition reported :: "joi_detail list \<Rightarrow> string list \<Rightarrow> bool" where
  "reported ds p =
     (\<exists>d \<in> set ds. path d = p
         \<or> (p = [''parameters'', ''stop'']
            \<and> (case path d of [a, b, i] \<Rightarrow> [a, b] = p \<and> is_index i | _ \<Rightarrow> False)))"




section \<open>Concrete inputs\<close>

text \<open>
  Inputs at which the theorems below are instantiated. \<open>lib0\<close> is an instance of the
  library record that is right on the values these inputs reach: \<open>stringify0\<close> prints
  texts without characters that need escaping, whole numbers, booleans, null, arrays and
  objects as \<open>JSON.stringify\<close> does; \<open>parse0\<close> reads the two stream frames used and
  rejects every other text; no string is offered where the schema expects a number, an
  object or an array.
\<close>

fun stringify0 :: "json \<Rightarrow> string" where
  "stringify0 JUndefined = ''null''"
| "stringify0 JNull = ''null''"
| "stringify0 (JBool b) = (if b then ''true'' else ''false'')"
| "stringify0 (JNum x) =
     (if 0 \<le> x then show_nat (nat \<lfloor>x\<rfloor>) else ''-'' @ show_nat (nat \<lfloor>- x\<rfloor>))"
| "stringify0 (JStr s) = dq @ s @ dq"
| "stringify0 (JArr xs) = ''['' @ join '','' (map stringify0 xs) @ '']''"
| "stringify0 (JObj kvs) =
     ''{'' @ join '','' (map (\<lambda>kv. dq @ fst kv @ dq @ '':'' @ stringify0 (snd kv))
                          (filter (\<lambda>kv. snd kv \<noteq> JUndefined) kvs)) @ ''}''"

definition delta_frame :: "string \<Rightarrow> json" where
  "delta_frame t = JObj [(''choices'', JArr [JObj [(''delta'', JObj [(''content'', JStr t)])]])]"

definition parse0 :: "string \<Rightarrow> json option" where
  "parse0 s =
     (if s = stringify0 (delta_frame ''Hel'') then Some (delta_frame ''Hel'')
      else if s = stringify0 (delta_frame ''lo'') then Some (delta_frame ''lo'')
      else None)"

definition lib0 :: lib where
  "lib0 = \<lparr>JSON_parse = parse0, JSON_stringify = stringify0, String_of = stringify0,
           stack_text = ''Error'', str_number = (\<lambda>s. NotNumber), str_object = (\<lambda>s. None),
           str_array = (\<lambda>s. None)\<rparr>"

definition env_none :: process_env where
  "env_none =
     \<lparr>NODE_ENV = None, OPENAI_API_KEY = None, OPENAI_BASE_URL = None,
      ANTHROPIC_API_KEY = None, ANTHROPIC_BASE_URL = None,
      GROQ_API_KEY = None, GROQ_BASE_URL = None,
      GOOGLE_AI_API_KEY = None, GOOGLE_AI_BASE_URL = None,
      DEFAULT_TEMPERATURE = None, DEFAULT_MAX_TOKENS = None, DEFAULT_TOP_P = None,
      DEFAULT_FREQUENCY_PENALTY = None, DEFAULT_PRESENCE_PENALTY = None\<rparr>"

definition env_keys :: process_env where
  "env_keys =
     env_none\<lparr>OPENAI_API_KEY := Some ''sk-test'',
              OPENAI_BASE_URL := Some ''https://api.openai.com/v1'',
              ANTHROPIC_API_KEY := Some ''sk-ant-test'',
              ANTHROPIC_BASE_URL := Some ''https://api.anthropic.com'',
              GROQ_API_KEY := Some ''gsk-test'',
              GROQ_BASE_URL := Some ''https://api.groq.com/openai/v1'',
              GOOGLE_AI_API_KEY := Some ''g-test'',
              GOOGLE_AI_BASE_URL := Some ''https://generativelanguage.googleapis.com''\<rparr>"

definition req0 :: request_info where
  "req0 = \<lparr>now = ''2024-01-15T10:30:00.000Z'', requestId = ''req_1''\<rparr>"

definition say_hi :: "string \<Rightarrow> string \<Rightarrow> json" where
  "say_hi m p = JObj [(''prompt'', JStr ''Say hi''), (''model'', JStr m), (''provider'', JStr p)]"

definition up_hello :: upstream where
  "up_hello = \<lparr>post = (\<lambda>rq. Inr (JObj [])), post_stream = (\<lambda>rq. Inr []), stream_error = (\<lambda>rq. None)\<rparr>"

definition network_error :: js_error where
  "network_error =
     \<lparr>err_name = ''AxiosError'', err_message = ''connect ECONNREFUSED 127.0.0.1:443'',
      err_statusCode = None, err_provider = None, err_code = Some ''ECONNREFUSED'',
      err_response = None, err_request = True, err_stack = ''AxiosError''\<rparr>"

definition up_refused :: upstream where
  "up_refused = \<lparr>post = (\<lambda>rq. Inl network_error), post_stream = (\<lambda>rq. Inl network_error), stream_error = (\<lambda>rq. None)\<rparr>"

definition two_frames :: "string list" where
  "two_frames = [''data: '' @ stringify0 (delta_frame ''Hel'') @ nl @ nl,
                 ''data: '' @ stringify0 (delta_frame ''lo'') @ nl @ nl,
                 ''data: [DONE]'' @ nl @ nl]"

definition up_two_frames :: upstream where
  "up_two_frames = \<lparr>post = (\<lambda>rq. Inr (JObj [])), post_stream = (\<lambda>rq. Inr two_frames), stream_error = (\<lambda>rq. None)\<rparr>"




definition anthropic_reply :: json where
  "anthropic_reply =
     JObj [(''content'', JArr [JObj [(''type'', JStr ''text''), (''text'', JStr ''Hello'')]]),
           (''model'', JStr ''claude-sonnet-4-20250514''),
           (''stop_reason'', JStr ''end_turn''),
           (''usage'', JObj [(''input_tokens'', JNum 9), (''output_tokens'', JNum 3)])]"

definition up_anthropic :: upstream where
  "up_anthropic = \<lparr>post = (\<lambda>rq. Inr anthropic_reply), post_stream = (\<lambda>rq. Inr []), stream_error = (\<lambda>rq. None)\<rparr>"

definition anthropic_service :: model_service where
  "anthropic_service =
     \<lparr>service_class = AnthropicService, svc_provider = ''anthropic'',
      svc_config = \<lparr>apiKey = Some ''sk-ant-test'', baseUrl = Some ''https://api.anthropic.com'',
                    available = True\<rparr>,
      defaultParams = getDefaultParameters env_keys,
      baseURL = Some ''https://api.anthropic.com''\<rparr>"

definition timeout_error :: js_error where
  "timeout_error =
     \<lparr>err_name = ''AxiosError'', err_message = ''timeout of 60000ms exceeded'',
      err_statusCode = None, err_provider = None, err_code = Some ''ECONNABORTED'',
      err_response = None, err_request = True, err_stack = ''AxiosError''\<rparr>"

definition up_timeout :: upstream where
  "up_timeout = \<lparr>post = (\<lambda>rq. Inl timeout_error), post_stream = (\<lambda>rq. Inl timeout_error), stream_error = (\<lambda>rq. None)\<rparr>"

definition openai_reply :: json where
  "openai_reply =
     JObj [(''model'', JStr ''gpt-4''),
           (''choices'', JArr [JObj [(''message'', JObj [(''role'', JStr ''assistant''),
                                                         (''content'', JStr ''hi'')]),
                                     (''finish_reason'', JStr ''stop'')]]),
           (''usage'', JObj [(''prompt_tokens'', JNum 9), (''completion_tokens'', JNum 1),
                             (''total_tokens'', JNum 10)])]"

definition up_openai :: upstream where
  "up_openai = \<lparr>post = (\<lambda>rq. Inr openai_reply), post_stream = (\<lambda>rq. Inr []), stream_error = (\<lambda>rq. None)\<rparr>"

definition env_defaults :: process_env where
  "env_defaults = env_keys\<lparr>DEFAULT_TEMPERATURE := Some 0, DEFAULT_MAX_TOKENS := Some 2000\<rparr>"

definition posted :: "event list \<Rightarrow> json list" where
  "posted es = concat (map (\<lambda>e. case e of Posted rq \<Rightarrow> [payload rq] | Constructed p \<Rightarrow> []) es)"

definition say_hi_with :: "json \<Rightarrow> json" where
  "say_hi_with ps = JObj [(''prompt'', JStr ''Say hi''), (''model'', JStr ''gpt-4''),
                          (''provider'', JStr ''openai''), (''parameters'', ps)]"



section \<open>Basic facts\<close>

lemma getp_simps [simp]:
  "getp k [] = JUndefined"
  "getp k ((k', v) # kvs) = (if k' = k then v else getp k kvs)"
  by (auto simp: getp_def)

lemma toLowerCase_valid: "p \<in> set valid_providers \<Longrightarrow> toLowerCase p = p"
  by (auto simp: valid_providers_def toLowerCase_def lower_char_def)

lemma getProviderConfig_valid:
  "getProviderConfig env ''openai'' =
     Some \<lparr>apiKey = OPENAI_API_KEY env, baseUrl = OPENAI_BASE_URL env,
           available = present (OPENAI_API_KEY env)\<rparr>"
  "getProviderConfig env ''anthropic'' =
     Some \<lparr>apiKey = ANTHROPIC_API_KEY env, baseUrl = ANTHROPIC_BASE_URL env,
           available = present (ANTHROPIC_API_KEY env)\<rparr>"
  "getProviderConfig env ''groq'' =
     Some \<lparr>apiKey = GROQ_API_KEY env, baseUrl = GROQ_BASE_URL env,
           available = present (GROQ_API_KEY env)\<rparr>"
  "getProviderConfig env ''google'' =
     Some \<lparr>apiKey = GOOGLE_AI_API_KEY env, baseUrl = GOOGLE_AI_BASE_URL env,
           available = present (GOOGLE_AI_API_KEY env)\<rparr>"
  by (simp_all add: getProviderConfig_def toLowerCase_def lower_char_def)

lemma enum_schema_Nil: "enum_schema key allowed rm om v = [] \<Longrightarrow> v = JStr (text_of v) \<and> text_of v \<in> set allowed"
  by (auto simp: enum_schema_def text_of_def split: json.splits if_splits)

lemma prompt_schema_Nil:
  "prompt_schema v = [] \<Longrightarrow> v = JStr (text_of v) \<and> text_of v \<noteq> [] \<and> length (text_of v) \<le> 10000"
  by (auto simp: prompt_schema_def text_of_def split: json.splits if_splits)

lemma validateRequest_Inr:
  assumes "validateRequest L env req body = Inr data"
  shows "\<exists>kvs. read_object L body = Some kvs \<and> schema_details L kvs = []
               \<and> data = schema_value L kvs"
  using assms unfolding validateRequest_def
  by (cases body) (simp_all split: option.splits if_splits)

lemma valid_request:
  assumes "validateRequest L env req body = Inr data"
  shows "provider data \<in> set valid_providers"
    and "model data \<in> set valid_models"
    and "prompt data \<noteq> []"
proof -
  from validateRequest_Inr[OF assms] obtain kvs where
    d: "schema_details L kvs = []" and v: "data = schema_value L kvs" by blast
  from d have p: "prompt_schema (getp ''prompt'' kvs) = []"
    and m: "enum_schema ''model'' valid_models
         ''Model selection is required'' ''Invalid model selection'' (getp ''model'' kvs) = []"
    and q: "enum_schema ''provider'' valid_providers
         ''Provider selection is required'' ''Invalid provider selection''
         (getp ''provider'' kvs) = []"
    by (simp_all add: schema_details_def)
  show "provider data \<in> set valid_providers"
    using enum_schema_Nil[OF q] v by (simp add: schema_value_def)
  show "model data \<in> set valid_models"
    using enum_schema_Nil[OF m] v by (simp add: schema_value_def)
  show "prompt data \<noteq> []"
    using prompt_schema_Nil[OF p] v by (simp add: schema_value_def)
qed

section \<open>The provider listing\<close>

text \<open>
  C9. \<open>GET /api/models/providers\<close> answers 200 with a \<open>providers\<close> map that is a function
  of the environment alone: for each of the four providers, the availability flag is
  the presence of its credential and the catalog is the fixed one. Two calls under the
  same environment therefore give the same \<open>providers\<close> map, whatever their clock
  readings; only \<open>timestamp\<close> follows the request.
\<close>

theorem providers_idempotent:
  "get_providers L env req =
     res_json 200
       (JObj [(''providers'',
                 JObj [(''openai'', JObj [(''available'', JBool (present (OPENAI_API_KEY env))),
                                          (''models'', getProviderModels ''openai'')]),
                       (''anthropic'', JObj [(''available'', JBool (present (ANTHROPIC_API_KEY env))),
                                             (''models'', getProviderModels ''anthropic'')]),
                       (''groq'', JObj [(''available'', JBool (present (GROQ_API_KEY env))),
                                        (''models'', getProviderModels ''groq'')]),
                       (''google'', JObj [(''available'', JBool (present (GOOGLE_AI_API_KEY env))),
                                          (''models'', getProviderModels ''google'')])]),
              (''timestamp'', JStr (now req))]) fresh
   \<and> body_member ''providers'' (get_providers L env req)
       = body_member ''providers'' (get_providers L env req')"
  by (simp add: get_providers_def getProviderConfig_valid and_then_def body_member_def
      res_json_def opt_prop_def)

section \<open>Unavailable providers\<close>

lemma available_valid:
  assumes "p \<in> set valid_providers" "getProviderConfig env p = Some config"
  shows "available config = present (apiKey config)"
  using assms by (auto simp: valid_providers_def getProviderConfig_valid)

lemma validateRequest_say_hi:
  "m \<in> set valid_models \<Longrightarrow> p \<in> set valid_providers \<Longrightarrow>
   validateRequest L env req (say_hi m p) =
     Inr \<lparr>prompt = ''Say hi'', model = m, provider = p, parameters = []\<rparr>"
  by (simp add: validateRequest_def say_hi_def read_object_def schema_details_def schema_value_def
      prompt_schema_def enum_schema_def parameters_schema_def text_of_def)

text \<open>
  C3, as stated, fails: with no credential in the environment, \<open>GET /api/models/openai\<close>
  answers 503, but the body has no \<open>available\<close> member at all, so it does not contain
  \<open>available: false\<close>.
\<close>

theorem unavailable_body_counterexample:
  "status (get_provider env_none req0 ''openai'') = 503
   \<and> body_member ''available'' (get_provider env_none req0 ''openai'') \<noteq> JBool False"
  by (simp add: get_provider_def getProviderConfig_valid env_none_def present_def
      provider_unavailable_def res_json_def fresh_def body_member_def opt_prop_def)

text \<open>
  C3, amended. For each of the four providers whose credential is absent (unset or
  empty), \<open>GET /api/models/<provider>\<close> answers 503 with the body
  \<open>{error: 'Provider Unavailable', message, provider}\<close>, and a \<open>POST /api/models/chat\<close>
  whose body passes both validations and names that provider gets the same 503
  response, with no adapter constructed and no upstream call made.
\<close>

theorem unavailable_provider_503:
  assumes "p \<in> set valid_providers"
      and "getProviderConfig env p = Some config"
      and "\<not> present (apiKey config)"
  shows "get_provider env req p = provider_unavailable p
       \<and> (validateRequest L env req body = Inr data \<and> provider data = p
            \<and> validateModelProvider (model data) (provider data)
          \<longrightarrow> chat_route L env up req elapsed body = (provider_unavailable p, []))
       \<and> status (provider_unavailable p) = 503
       \<and> json_body (provider_unavailable p) =
           Some (JObj [(''error'', JStr ''Provider Unavailable''),
                       (''message'', JStr (''Provider '' @ sq @ p @ sq
                                           @ '' is not configured or API key is missing'')),
                       (''provider'', JStr p)])"
proof -
  have av: "\<not> available config" using available_valid[OF assms(1,2)] assms(3) by simp
  have g: "get_provider env req p = provider_unavailable p"
    using assms(2) av by (simp add: get_provider_def)
  have c: "chat_route L env up req elapsed body = (provider_unavailable p, [])"
    if "validateRequest L env req body = Inr data" "provider data = p"
       "validateModelProvider (model data) (provider data)"
    using that assms(2) av
    by (simp add: chat_route_def validateModelCompatibility_def chat_handler_def)
  have s: "status (provider_unavailable p) = 503"
    by (simp add: provider_unavailable_def res_json_def)
  have b: "json_body (provider_unavailable p) =
           Some (JObj [(''error'', JStr ''Provider Unavailable''),
                       (''message'', JStr (''Provider '' @ sq @ p @ sq
                                           @ '' is not configured or API key is missing'')),
                       (''provider'', JStr p)])"
    by (simp add: provider_unavailable_def res_json_def)
  show ?thesis using g c s b by blast
qed

theorem unavailable_provider_503_witness:
  "get_provider env_none req0 ''openai'' = provider_unavailable ''openai''
   \<and> chat_route lib0 env_none up_hello req0 0 (say_hi ''gpt-4'' ''openai'')
       = (provider_unavailable ''openai'', [])
   \<and> status (provider_unavailable ''openai'') = 503"
  using unavailable_provider_503[of "''openai''" env_none
      "\<lparr>apiKey = None, baseUrl = None, available = False\<rparr>" req0 lib0
      "say_hi ''gpt-4'' ''openai''"
      "\<lparr>prompt = ''Say hi'', model = ''gpt-4'', provider = ''openai'', parameters = []\<rparr>"
      up_hello 0]
  by (simp add: valid_providers_def valid_models_def getProviderConfig_valid env_none_def present_def
      validateRequest_say_hi validateModelProvider_def modelProviderMap_def)

section \<open>Model and provider compatibility\<close>

lemma validateModelProvider_table:
  "p \<in> set valid_providers \<Longrightarrow>
   validateModelProvider m p = (\<exists>ms. (p, ms) \<in> set modelProviderMap \<and> m \<in> set ms)"
  by (auto simp: validateModelProvider_def modelProviderMap_def)

lemma errorHandler_fresh_error:
  "body_member ''error'' (errorHandler env req e fresh)
     = JStr (if err_name e = [] then ''Error'' else err_name e)"
  by (simp add: errorHandler_def headersSent_def fresh_def res_json_def formatErrorResponse_def
      body_member_def opt_prop_def Let_def)

lemma validateRequest_Inl_cases:
  assumes "validateRequest L env req body = Inl res"
  shows "(body = JUndefined \<and> res = errorHandler env req (TypeError L ''undefined'' ''model'') fresh)
       \<or> (\<exists>ds. ds \<noteq> [] \<and> res = validation_failed req ds)"
  using assms unfolding validateRequest_def
  by (cases body) (auto split: option.splits if_splits)

lemma validation_failed_members:
  "status (validation_failed req ds) = 400"
  "body_member ''error'' (validation_failed req ds) = JStr ''Validation Error''"
  "body_member ''details'' (validation_failed req ds) = JArr (map detail_json ds)"
  by (simp_all add: validation_failed_def res_json_def body_member_def opt_prop_def)

lemma validateRequest_Inl_not_compat:
  assumes "validateRequest L env req body = Inl res"
  shows "body_member ''error'' res \<noteq> JStr ''Compatibility Error''"
  using validateRequest_Inl_cases[OF assms]
  by (auto simp: errorHandler_fresh_error validation_failed_members TypeError_def)

lemma compat_rejected:
  assumes "validateRequest L env req body = Inr data"
      and "\<not> validateModelProvider (model data) (provider data)"
  shows "\<exists>r. chat_route L env up req elapsed body = (r, [])
            \<and> stream_route L env up req body = (r, [])
            \<and> status r = 400
            \<and> body_member ''error'' r = JStr ''Compatibility Error''
            \<and> body_member ''message'' r =
                JStr (''Model '' @ sq @ model data @ sq @ '' is not compatible with provider ''
                      @ sq @ provider data @ sq)"
    using assms
    by (simp add: chat_route_def stream_route_def validateModelCompatibility_def res_json_def
        body_member_def opt_prop_def)

text \<open>
  C6. A body that passes the base schema but whose \<open>(model, provider)\<close> pair is not in
  the compatibility table is answered, on \<open>/chat\<close> and on \<open>/stream\<close> alike, with status
  400, the error kind \<open>Compatibility Error\<close> and a message naming the pair; no adapter
  is constructed and no upstream call is made. The check comes second: a body the base
  schema rejects gets the schema's own response, which is never the compatibility
  error. The provider of a body that passed the base schema is one of the four
  provider names, and the check itself, for each of the four names, is membership of
  the model in that provider's row of the fixed table.
\<close>

theorem incompatible_pair_rejected:
  assumes "validateRequest L env req body = Inr data"
      and "\<not> validateModelProvider (model data) (provider data)"
  shows "(\<exists>r. chat_route L env up req elapsed body = (r, [])
            \<and> stream_route L env up req body = (r, [])
            \<and> status r = 400
            \<and> body_member ''error'' r = JStr ''Compatibility Error''
            \<and> body_member ''message'' r =
                JStr (''Model '' @ sq @ model data @ sq @ '' is not compatible with provider ''
                      @ sq @ provider data @ sq))
       \<and> (validateRequest L env req body' = Inl res' \<longrightarrow>
           chat_route L env up req elapsed body' = (res', [])
           \<and> stream_route L env up req body' = (res', [])
           \<and> body_member ''error'' res' \<noteq> JStr ''Compatibility Error'')
       \<and> provider data \<in> set valid_providers
       \<and> (p \<in> set valid_providers \<longrightarrow>
            validateModelProvider m p = (\<exists>ms. (p, ms) \<in> set modelProviderMap \<and> m \<in> set ms))"
proof -
  have "validateRequest L env req body' = Inl res' \<longrightarrow>
           chat_route L env up req elapsed body' = (res', [])
           \<and> stream_route L env up req body' = (res', [])
           \<and> body_member ''error'' res' \<noteq> JStr ''Compatibility Error''"
    using validateRequest_Inl_not_compat[of L env req body' res']
    by (simp add: chat_route_def stream_route_def)
  then show ?thesis
    using compat_rejected[OF assms] valid_request(1)[OF assms(1)] validateModelProvider_table
    by blast
qed

lemma validateRequest_empty_prompt:
  "validateRequest L env req (JObj [(''prompt'', JStr []), (''model'', JStr ''gpt-4''), (''provider'', JStr ''anthropic'')])
    = Inl (validation_failed req [report [''prompt''] ''Prompt cannot be empty'' (JStr [])])"
  by (simp add: validateRequest_def read_object_def schema_details_def prompt_schema_def enum_schema_def
     parameters_schema_def valid_models_def valid_providers_def)

theorem incompatible_pair_rejected_witness:
  "(\<exists>r. chat_route lib0 env_keys up_refused req0 0 (say_hi ''gpt-4'' ''anthropic'') = (r, [])
       \<and> stream_route lib0 env_keys up_refused req0 (say_hi ''gpt-4'' ''anthropic'') = (r, [])
       \<and> status r = 400
       \<and> body_member ''error'' r = JStr ''Compatibility Error'')
   \<and> chat_route lib0 env_keys up_refused req0 0
        (JObj [(''prompt'', JStr []), (''model'', JStr ''gpt-4''), (''provider'', JStr ''anthropic'')])
      = (validation_failed req0 [report [''prompt''] ''Prompt cannot be empty'' (JStr [])], [])
   \<and> ''anthropic'' \<in> set valid_providers
   \<and> \<not> (\<exists>ms. (''anthropic'', ms) \<in> set modelProviderMap \<and> ''gpt-4'' \<in> set ms)
   \<and> \<not> validateModelProvider ''gpt-4'' ''anthropic''"
proof -
  let ?data = "\<lparr>prompt = ''Say hi'', model = ''gpt-4'', provider = ''anthropic'', parameters = []\<rparr>"
  let ?bad = "JObj [(''prompt'', JStr []), (''model'', JStr ''gpt-4''), (''provider'', JStr ''anthropic'')]"
  let ?res = "validation_failed req0 [report [''prompt''] ''Prompt cannot be empty'' (JStr [])]"
  have v: "validateRequest lib0 env_keys req0 (say_hi ''gpt-4'' ''anthropic'') = Inr ?data"
    by (simp add: validateRequest_say_hi valid_models_def valid_providers_def)
  have n: "\<not> validateModelProvider (model ?data) (provider ?data)"
    by (simp add: validateModelProvider_def modelProviderMap_def)
  have b: "validateRequest lib0 env_keys req0 ?bad = Inl ?res"
    by (rule validateRequest_empty_prompt)
  have q: "''anthropic'' \<in> set valid_providers"
    by (simp add: valid_providers_def)
  have n': "\<not> validateModelProvider ''gpt-4'' ''anthropic''"
    using n by simp
  from incompatible_pair_rejected[OF v n, of up_refused 0 ?bad ?res "''anthropic''" "''gpt-4''"] b q n'
  show ?thesis by blast
qed

section \<open>Streaming\<close>

lemma fold_write_ended:
  "ended res \<Longrightarrow> fold (\<lambda>c. res_write (f c)) cs res = res\<lparr>lost := lost res @ map f cs\<rparr>"
  by (induction cs arbitrary: res) (simp_all add: res_write_def)

lemma fold_write_open:
  "\<not> ended res \<Longrightarrow>
   fold (\<lambda>c. res_write (f c)) cs res = res\<lparr>written := written res @ map f cs\<rparr>"
  by (induction cs arbitrary: res) (simp_all add: res_write_def)

lemma createModelService_class:
  assumes "createModelService L env p config = Inr svc"
  shows "p = ''openai'' \<or> p = ''groq'' \<Longrightarrow> service_class svc = OpenAIService \<or> service_class svc = GroqService"
    and "p = ''anthropic'' \<Longrightarrow> service_class svc = AnthropicService"
    and "p = ''google'' \<Longrightarrow> service_class svc = GoogleAIService"
  using assms
  by (auto simp: createModelService_def toLowerCase_def lower_char_def new_service_def Let_def split: if_splits)

lemma listening_route_response:
  assumes "validateRequest L env req body = Inr data"
      and "validateModelProvider (model data) (provider data)"
      and "provider data = ''openai'' \<or> provider data = ''groq''"
      and "getProviderConfig env (provider data) = Some config"
      and "available config"
      and "createModelService L env (provider data) config = Inr svc"
      and "post_stream up
             (chat_completions_request svc (prompt data) (model data)
                (mergeParameters svc (AList.update ''stream'' (JBool True) (parameters data)))
                True) = Inr events"
  shows "written (fst (stream_route L env up req body)) = [sse_done]
       \<and> lost (fst (stream_route L env up req body))
           = map (sse L) (concat (map (on_data L) events))
       \<and> ended (fst (stream_route L env up req body))"
proof -
  let ?ps = "AList.update ''stream'' (JBool True) (parameters data)"
  have cls: "service_class svc = OpenAIService \<or> service_class svc = GroqService"
    using createModelService_class(1)[OF assms(6) assms(3)] .
  have gen: "generateStreamingCompletion L up svc (prompt data) (model data) ?ps
        = (Inr \<lparr>before_return = [], after_return = concat (map (on_data L) events)\<rparr>,
           [chat_completions_request svc (prompt data) (model data) (mergeParameters svc ?ps) True])"
    using cls assms(7)
    by (auto simp: generateStreamingCompletion_def listen_streaming_def Let_def)
  have e3: "ended (res_end (res_write sse_done (stream_headers fresh)))"
    by (simp add: res_end_def)
  have route: "fst (stream_route L env up req body)
        = fold (\<lambda>c. res_write (sse L c)) (concat (map (on_data L) events))
            (res_end (res_write sse_done (stream_headers fresh)))"
    using assms(1,2,4,5,6) gen
    by (simp add: stream_route_def validateModelCompatibility_def stream_handler_def Let_def)
  show ?thesis
    unfolding route fold_write_ended[OF e3]
    by (simp add: res_end_def res_write_def stream_headers_def setHeader_def fresh_def)
qed

text \<open>
  C1 (what the code does). On \<open>/stream\<close> with the OpenAI or the Groq adapter, for every
  sequence of upstream \<open>data\<close> events: the adapter returns as soon as it has attached its
  listener, the route then writes \<open>data: [DONE]\<close> and ends the response, and every
  chunk the listener later passes to \<open>onChunk\<close> is written after the end. The client
  receives the terminator alone; the chunk events, in arrival order, are all lost.
\<close>

theorem stream_terminator_precedes_chunks:
  assumes "validateRequest L env req body = Inr data"
      and "validateModelProvider (model data) (provider data)"
      and "provider data = ''openai'' \<or> provider data = ''groq''"
      and "getProviderConfig env (provider data) = Some config"
      and "available config"
      and "createModelService L env (provider data) config = Inr svc"
      and "post_stream up
             (chat_completions_request svc (prompt data) (model data)
                (mergeParameters svc (AList.update ''stream'' (JBool True) (parameters data)))
                True) = Inr events"
  shows "written (fst (stream_route L env up req body)) = [sse_done]
       \<and> lost (fst (stream_route L env up req body))
           = map (sse L) (concat (map (on_data L) events))
       \<and> ended (fst (stream_route L env up req body))"
  using assms by (rule listening_route_response)

lemma two_frames_events:
  "map (sse lib0) (concat (map (on_data lib0) two_frames))
     = [''data: {'' @ dq @ ''content'' @ dq @ '':'' @ dq @ ''Hel'' @ dq @ '','' @ dq @ ''type'' @ dq
          @ '':'' @ dq @ ''content'' @ dq @ ''}'' @ nl @ nl,
        ''data: {'' @ dq @ ''content'' @ dq @ '':'' @ dq @ ''lo'' @ dq @ '','' @ dq @ ''type'' @ dq
          @ '':'' @ dq @ ''content'' @ dq @ ''}'' @ nl @ nl]"
  by code_simp

theorem stream_terminator_precedes_chunks_witness:
  "written (fst (stream_route lib0 env_keys up_two_frames req0 (say_hi ''gpt-4'' ''openai'')))
     = [''data: [DONE]'' @ nl @ nl]
   \<and> lost (fst (stream_route lib0 env_keys up_two_frames req0 (say_hi ''gpt-4'' ''openai'')))
     = [''data: {'' @ dq @ ''content'' @ dq @ '':'' @ dq @ ''Hel'' @ dq @ '','' @ dq @ ''type'' @ dq
          @ '':'' @ dq @ ''content'' @ dq @ ''}'' @ nl @ nl,
        ''data: {'' @ dq @ ''content'' @ dq @ '':'' @ dq @ ''lo'' @ dq @ '','' @ dq @ ''type'' @ dq
          @ '':'' @ dq @ ''content'' @ dq @ ''}'' @ nl @ nl]
   \<and> ended (fst (stream_route lib0 env_keys up_two_frames req0 (say_hi ''gpt-4'' ''openai'')))"
proof -
  let ?data = "\<lparr>prompt = ''Say hi'', model = ''gpt-4'', provider = ''openai'', parameters = []\<rparr>"
  let ?config = "\<lparr>apiKey = Some ''sk-test'', baseUrl = Some ''https://api.openai.com/v1'',
                   available = True\<rparr>"
  let ?svc = "\<lparr>service_class = OpenAIService, svc_provider = ''openai'', svc_config = ?config,
                defaultParams = getDefaultParameters env_keys,
                baseURL = Some ''https://api.openai.com/v1''\<rparr>"
  have v: "validateRequest lib0 env_keys req0 (say_hi ''gpt-4'' ''openai'') = Inr ?data"
    by (simp add: validateRequest_say_hi valid_models_def valid_providers_def)
  have c: "validateModelProvider (model ?data) (provider ?data)"
    by (simp add: validateModelProvider_def modelProviderMap_def)
  have p: "provider ?data = ''openai'' \<or> provider ?data = ''groq''" by simp
  have g: "getProviderConfig env_keys (provider ?data) = Some ?config"
    by (simp add: getProviderConfig_valid env_keys_def env_none_def present_def)
  have a: "available ?config" by simp
  have s: "createModelService lib0 env_keys (provider ?data) ?config = Inr ?svc"
    by (simp add: createModelService_def toLowerCase_def lower_char_def new_service_def present_def)
  have u: "post_stream up_two_frames
             (chat_completions_request ?svc (prompt ?data) (model ?data)
                (mergeParameters ?svc (AList.update ''stream'' (JBool True) (parameters ?data)))
                True) = Inr two_frames"
    by (simp add: up_two_frames_def)
  from stream_terminator_precedes_chunks[OF v c p g a s u]
  show ?thesis
    by (simp only: two_frames_events sse_done_def)
qed


text \<open>
  C2 (what the code does). When the blocking completion succeeds, the Anthropic
  adapter's \<open>generateStreamingCompletion\<close> passes \<open>onChunk\<close> exactly one content chunk
  and nothing else: no done chunk follows. The Google adapter passes the content chunk
  and then the done chunk.
\<close>

theorem fallback_streaming_chunks:
  assumes "generateCompletion L up svc p m ps = (Inr result, posts)"
  shows "(service_class svc = AnthropicService \<longrightarrow>
            generateStreamingCompletion L up svc p m ps
              = (Inr \<lparr>before_return = [JObj [(''content'', opt_prop ''content'' result),
                                               (''type'', JStr ''content'')]],
                       after_return = []\<rparr>, posts))
       \<and> (service_class svc = GoogleAIService \<longrightarrow>
            generateStreamingCompletion L up svc p m ps
              = (Inr \<lparr>before_return = [JObj [(''content'', opt_prop ''content'' result),
                                               (''type'', JStr ''content'')],
                                        JObj [(''type'', JStr ''done'')]],
                       after_return = []\<rparr>, posts))"
  using assms by (simp add: generateStreamingCompletion_def content_chunk_def done_chunk_def)

lemma anthropic_completion:
  "generateCompletion lib0 up_anthropic anthropic_service ''Say hi'' ''claude-sonnet-4-20250514'' []
     = (Inr (JObj [(''content'', JStr ''Hello''),
                   (''usage'', JObj [(''input_tokens'', JNum 9), (''output_tokens'', JNum 3)]),
                   (''metadata'', JObj [(''model'', JStr ''claude-sonnet-4-20250514''),
                                        (''stop_reason'', JStr ''end_turn'')])]),
        [completion_request anthropic_service ''Say hi'' ''claude-sonnet-4-20250514''
           (mergeParameters anthropic_service [])])"
  by (simp add: generateCompletion_def Let_def up_anthropic_def anthropic_reply_def and_then_def
      normalize_def anthropic_service_def anthropic_normalize_def get_prop_def get_index0_def
      opt_prop_def)

theorem fallback_streaming_chunks_witness:
  "fst (generateStreamingCompletion lib0 up_anthropic anthropic_service
          ''Say hi'' ''claude-sonnet-4-20250514'' [])
     = Inr \<lparr>before_return = [JObj [(''content'', JStr ''Hello''), (''type'', JStr ''content'')]],
            after_return = []\<rparr>"
  using fallback_streaming_chunks[OF anthropic_completion]
  by (simp add: anthropic_service_def opt_prop_def)

section \<open>Failures while streaming\<close>







section \<open>Upstream failures, normalized responses and defaults\<close>

lemma createModelService_provider:
  assumes "createModelService L env p config = Inr svc" "p \<in> set valid_providers"
  shows "svc_provider svc = p"
  using assms
  by (auto simp: createModelService_def toLowerCase_def lower_char_def new_service_def Let_def
      valid_providers_def split: if_splits)

text \<open>
  C4 (what the code does). When an upstream call of \<open>generateCompletion\<close> gets no answer
  (the HTTP client's error has a request and no response), whatever the client's error
  code, and so also when the 60-second timeout expires, \<open>handleApiError\<close> raises an
  \<open>APIError\<close> with status 502 and the provider's name, without the original code; the
  error handler therefore answers 502, never 504.
\<close>

theorem timeout_answers_502:
  assumes "validateRequest L env req body = Inr data"
      and "validateModelProvider (model data) (provider data)"
      and "getProviderConfig env (provider data) = Some config"
      and "available config"
      and "createModelService L env (provider data) config = Inr svc"
      and "post up (completion_request svc (prompt data) (model data)
                      (mergeParameters svc (parameters data))) = Inl e"
      and "err_response e = None"
      and "err_request e"
  shows "status (fst (chat_route L env up req elapsed body)) = 502
       \<and> body_member ''error'' (fst (chat_route L env up req elapsed body)) = JStr ''APIError''
       \<and> body_member ''message'' (fst (chat_route L env up req elapsed body))
           = JStr (''Network error during '' @ completion_operation (service_class svc))
       \<and> body_member ''provider'' (fst (chat_route L env up req elapsed body))
           = JStr (provider data)"
proof -
  let ?err = "APIError L (''Network error during '' @ completion_operation (service_class svc))
                502 (svc_provider svc)"
  have pv: "provider data \<in> set valid_providers" using valid_request(1)[OF assms(1)] .
  have sp: "svc_provider svc = provider data"
    using createModelService_provider[OF assms(5) pv] .
  have ne: "provider data \<noteq> []" using pv by (auto simp: valid_providers_def)
  have gen: "generateCompletion L up svc (prompt data) (model data) (parameters data)
               = (Inl ?err, [completion_request svc (prompt data) (model data)
                               (mergeParameters svc (parameters data))])"
    using assms(6,7,8) by (simp add: generateCompletion_def Let_def and_then_def handleApiError_def)
  have route: "fst (chat_route L env up req elapsed body) = errorHandler env req ?err fresh"
    using assms(1,2,3,4,5) gen
    by (simp add: chat_route_def validateModelCompatibility_def chat_handler_def)
  show ?thesis
    unfolding route
    using ne sp
    by (simp add: errorHandler_def headersSent_def fresh_def APIError_def res_json_def Let_def
        formatErrorResponse_def body_member_def opt_prop_def)
qed


theorem timeout_answers_502_witness:
  "status (fst (chat_route lib0 env_keys up_timeout req0 0 (say_hi ''gpt-4'' ''openai''))) = 502
   \<and> body_member ''message'' (fst (chat_route lib0 env_keys up_timeout req0 0 (say_hi ''gpt-4'' ''openai'')))
       = JStr ''Network error during OpenAI completion''
   \<and> err_code timeout_error = Some ''ECONNABORTED''"
proof -
  let ?data = "\<lparr>prompt = ''Say hi'', model = ''gpt-4'', provider = ''openai'', parameters = []\<rparr>"
  let ?config = "\<lparr>apiKey = Some ''sk-test'', baseUrl = Some ''https://api.openai.com/v1'',
                   available = True\<rparr>"
  let ?svc = "\<lparr>service_class = OpenAIService, svc_provider = ''openai'', svc_config = ?config,
                defaultParams = getDefaultParameters env_keys,
                baseURL = Some ''https://api.openai.com/v1''\<rparr>"
  have v: "validateRequest lib0 env_keys req0 (say_hi ''gpt-4'' ''openai'') = Inr ?data"
    by (simp add: validateRequest_say_hi valid_models_def valid_providers_def)
  have c: "validateModelProvider (model ?data) (provider ?data)"
    by (simp add: validateModelProvider_def modelProviderMap_def)
  have g: "getProviderConfig env_keys (provider ?data) = Some ?config"
    by (simp add: getProviderConfig_valid env_keys_def env_none_def present_def)
  have a: "available ?config" by simp
  have s: "createModelService lib0 env_keys (provider ?data) ?config = Inr ?svc"
    by (simp add: createModelService_def toLowerCase_def lower_char_def new_service_def present_def)
  have u: "post up_timeout (completion_request ?svc (prompt ?data) (model ?data)
                      (mergeParameters ?svc (parameters ?data))) = Inl timeout_error"
    by (simp add: up_timeout_def)
  have r: "err_response timeout_error = None" by (simp add: timeout_error_def)
  have q: "err_request timeout_error" by (simp add: timeout_error_def)
  from timeout_answers_502[OF v c g a s u r q, of 0]
  show ?thesis by (simp add: completion_operation_def timeout_error_def)
qed


lemma and_then_Inr: "and_then r f = Inr y \<Longrightarrow> \<exists>x. r = Inr x \<and> f x = Inr y"
  by (cases r) (simp_all add: and_then_def)

lemma anthropic_normalize_shape:
  assumes "anthropic_normalize L data = Inr r"
  shows "\<exists>c u mo sr. r = JObj [(''content'', c), (''usage'', u),
                                 (''metadata'', JObj [(''model'', mo), (''stop_reason'', sr)])]"
  using assms unfolding anthropic_normalize_def
  by (auto dest!: and_then_Inr)

lemma openai_normalize_shape:
  assumes "openai_normalize L data = Inr r"
  shows "\<exists>c u mo fr. r = JObj [(''content'', c), (''usage'', u),
                                 (''metadata'', JObj [(''model'', mo), (''finish_reason'', fr)])]"
  using assms unfolding openai_normalize_def
  by (auto dest!: and_then_Inr)

lemma google_normalize_shape:
  assumes "google_normalize L m data = Inr r"
  shows "\<exists>c fr. r = JObj [(''content'', c),
                            (''metadata'', JObj [(''model'', JStr m), (''finish_reason'', fr)])]"
  using assms unfolding google_normalize_def
  by (auto dest!: and_then_Inr split: if_splits)

lemma generateCompletion_Inr:
  assumes "fst (generateCompletion L up svc p m ps) = Inr r"
  shows "\<exists>data. normalize L svc m data = Inr r"
  using assms
  by (auto simp: generateCompletion_def Let_def and_then_def split: sum.splits)

text \<open>
  C7 (what the code does). For a successful upstream response, the metadata record of
  the Anthropic adapter's result has exactly the members \<open>model\<close> and \<open>stop_reason\<close>, so it
  has no \<open>finish_reason\<close>; the metadata of the OpenAI, Groq and Google adapters has
  exactly \<open>model\<close> and \<open>finish_reason\<close>.
\<close>

theorem metadata_keys_by_adapter:
  assumes "fst (generateCompletion L up svc p m ps) = Inr r"
  shows "(service_class svc = AnthropicService \<longrightarrow>
            object_keys (opt_prop ''metadata'' r) = [''model'', ''stop_reason'']
            \<and> opt_prop ''finish_reason'' (opt_prop ''metadata'' r) = JUndefined)
       \<and> (service_class svc \<noteq> AnthropicService \<longrightarrow>
            object_keys (opt_prop ''metadata'' r) = [''model'', ''finish_reason''])"
proof -
  from generateCompletion_Inr[OF assms] obtain data where n: "normalize L svc m data = Inr r"
    by blast
  show ?thesis
  proof (cases "service_class svc")
    case OpenAIService
    with n openai_normalize_shape[of L data r] show ?thesis
      by (auto simp: normalize_def object_keys_def opt_prop_def)
  next
    case AnthropicService
    with n anthropic_normalize_shape[of L data r] show ?thesis
      by (auto simp: normalize_def object_keys_def opt_prop_def)
  next
    case GroqService
    with n openai_normalize_shape[of L data r] show ?thesis
      by (auto simp: normalize_def object_keys_def opt_prop_def)
  next
    case GoogleAIService
    with n google_normalize_shape[of L m data r] show ?thesis
      by (auto simp: normalize_def object_keys_def opt_prop_def)
  qed
qed

theorem metadata_keys_by_adapter_witness:
  "object_keys (opt_prop ''metadata''
     (JObj [(''content'', JStr ''Hello''),
            (''usage'', JObj [(''input_tokens'', JNum 9), (''output_tokens'', JNum 3)]),
            (''metadata'', JObj [(''model'', JStr ''claude-sonnet-4-20250514''),
                                 (''stop_reason'', JStr ''end_turn'')])]))
     = [''model'', ''stop_reason'']
   \<and> fst (generateCompletion lib0 up_anthropic anthropic_service
            ''Say hi'' ''claude-sonnet-4-20250514'' [])
     = Inr (JObj [(''content'', JStr ''Hello''),
            (''usage'', JObj [(''input_tokens'', JNum 9), (''output_tokens'', JNum 3)]),
            (''metadata'', JObj [(''model'', JStr ''claude-sonnet-4-20250514''),
                                 (''stop_reason'', JStr ''end_turn'')])])"
proof -
  have f: "fst (generateCompletion lib0 up_anthropic anthropic_service
            ''Say hi'' ''claude-sonnet-4-20250514'' [])
     = Inr (JObj [(''content'', JStr ''Hello''),
            (''usage'', JObj [(''input_tokens'', JNum 9), (''output_tokens'', JNum 3)]),
            (''metadata'', JObj [(''model'', JStr ''claude-sonnet-4-20250514''),
                                 (''stop_reason'', JStr ''end_turn'')])])"
    by (simp add: anthropic_completion)
  from metadata_keys_by_adapter[OF f] f show ?thesis
    by (simp add: anthropic_service_def)
qed

lemma chat_route_events:
  assumes "validateRequest L env req body = Inr data"
      and "validateModelProvider (model data) (provider data)"
      and "getProviderConfig env (provider data) = Some config"
      and "available config"
      and "createModelService L env (provider data) config = Inr svc"
  shows "snd (chat_route L env up req elapsed body)
           = [Constructed (svc_provider svc),
              Posted (completion_request svc (prompt data) (model data)
                        (mergeParameters svc (parameters data)))]"
proof -
  obtain r where g: "generateCompletion L up svc (prompt data) (model data) (parameters data)
      = (r, [completion_request svc (prompt data) (model data)
               (mergeParameters svc (parameters data))])"
    by (simp add: generateCompletion_def Let_def)
  show ?thesis
    using assms g
    by (cases r) (simp_all add: chat_route_def validateModelCompatibility_def chat_handler_def)
qed

lemma validateRequest_empty_parameters:
  "validateRequest L env req (say_hi_with (JObj []))
     = Inr \<lparr>prompt = ''Say hi'', model = ''gpt-4'', provider = ''openai'',
            parameters = [(''temperature'', JNum (7/10)), (''max_tokens'', JNum 1000),
                          (''top_p'', JNum 1), (''frequency_penalty'', JNum 0),
                          (''presence_penalty'', JNum 0), (''stream'', JBool False)]\<rparr>"
  by (simp add: validateRequest_def say_hi_with_def read_object_def schema_details_def
      schema_value_def prompt_schema_def enum_schema_def parameters_schema_def text_of_def
      valid_models_def valid_providers_def parameter_results_def number_schema_def
      boolean_schema_def stop_schema_def)

text \<open>
  C8 (what the code does). With \<open>DEFAULT_TEMPERATURE=0\<close> and \<open>DEFAULT_MAX_TOKENS=2000\<close>
  configured: a request without \<open>parameters\<close> is sent upstream with temperature 0.7,
  not the configured 0 (a configured zero is replaced by the built-in fallback); a
  request with the empty \<open>parameters\<close> object is sent with \<open>max_tokens\<close> 1000, not the
  configured 2000 (the request schema has filled in its own default, which the merge
  then prefers); only the request without \<open>parameters\<close> gets the configured 2000.
\<close>

theorem configured_defaults_not_used:
  "DEFAULT_TEMPERATURE env_defaults = Some 0
   \<and> map (opt_prop ''temperature'')
         (posted (snd (chat_route lib0 env_defaults up_openai req0 0 (say_hi ''gpt-4'' ''openai''))))
       = [JNum (7/10)]
   \<and> DEFAULT_MAX_TOKENS env_defaults = Some 2000
   \<and> map (opt_prop ''max_tokens'')
         (posted (snd (chat_route lib0 env_defaults up_openai req0 0 (say_hi_with (JObj [])))))
       = [JNum 1000]
   \<and> map (opt_prop ''max_tokens'')
         (posted (snd (chat_route lib0 env_defaults up_openai req0 0 (say_hi ''gpt-4'' ''openai''))))
       = [JNum 2000]"
proof -
  let ?data = "\<lparr>prompt = ''Say hi'', model = ''gpt-4'', provider = ''openai'', parameters = []\<rparr>"
  let ?data' = "\<lparr>prompt = ''Say hi'', model = ''gpt-4'', provider = ''openai'',
            parameters = [(''temperature'', JNum (7/10)), (''max_tokens'', JNum 1000),
                          (''top_p'', JNum 1), (''frequency_penalty'', JNum 0),
                          (''presence_penalty'', JNum 0), (''stream'', JBool False)]\<rparr>"
  let ?config = "\<lparr>apiKey = Some ''sk-test'', baseUrl = Some ''https://api.openai.com/v1'',
                   available = True\<rparr>"
  let ?svc = "\<lparr>service_class = OpenAIService, svc_provider = ''openai'', svc_config = ?config,
                defaultParams = getDefaultParameters env_defaults,
                baseURL = Some ''https://api.openai.com/v1''\<rparr>"
  have v: "validateRequest lib0 env_defaults req0 (say_hi ''gpt-4'' ''openai'') = Inr ?data"
    by (simp add: validateRequest_say_hi valid_models_def valid_providers_def)
  have v': "validateRequest lib0 env_defaults req0 (say_hi_with (JObj [])) = Inr ?data'"
    by (rule validateRequest_empty_parameters)
  have c: "validateModelProvider (model ?data) (provider ?data)"
    by (simp add: validateModelProvider_def modelProviderMap_def)
  have c': "validateModelProvider (model ?data') (provider ?data')"
    by (simp add: validateModelProvider_def modelProviderMap_def)
  have g: "getProviderConfig env_defaults (provider ?data) = Some ?config"
    by (simp add: getProviderConfig_valid env_defaults_def env_keys_def env_none_def present_def)
  have g': "getProviderConfig env_defaults (provider ?data') = Some ?config"
    using g by simp
  have a: "available ?config" by simp
  have s: "createModelService lib0 env_defaults (provider ?data) ?config = Inr ?svc"
    by (simp add: createModelService_def toLowerCase_def lower_char_def new_service_def present_def)
  have s': "createModelService lib0 env_defaults (provider ?data') ?config = Inr ?svc"
    using s by simp
  have d: "getDefaultParameters env_defaults
             = [(''temperature'', JNum (7/10)), (''max_tokens'', JNum 2000), (''top_p'', JNum 1),
                (''frequency_penalty'', JNum 0), (''presence_penalty'', JNum 0)]"
    by (simp add: getDefaultParameters_def env_defaults_def env_keys_def env_none_def or_default_def)
  have e1: "DEFAULT_TEMPERATURE env_defaults = Some 0" "DEFAULT_MAX_TOKENS env_defaults = Some 2000"
    by (simp_all add: env_defaults_def env_keys_def env_none_def)
  show ?thesis
    unfolding chat_route_events[OF v c g a s] chat_route_events[OF v' c' g' a s']
    by (simp add: e1 d posted_def completion_request_def chat_completions_request_def
        mergeParameters_def opt_prop_def)
qed

section \<open>Validation reports\<close>









lemma reportedI: "d \<in> set ds \<Longrightarrow> path d = p \<Longrightarrow> reported ds p"
  by (auto simp: reported_def)





























end
